theory Spec2Isabelle
  imports Complex_Main
begin

section \<open>Python values, errors and numpy arrays\<close>

text \<open>
  The tutorial notebook (\<^verbatim>\<open>src/unnamed/part_000\<close>) defines three classes on top of the
  imported \<^verbatim>\<open>turbopy\<close> package: \<^verbatim>\<open>BlockOnSpring\<close> (a PhysicsModule),
  \<^verbatim>\<open>BlockDiagnostic\<close> (a Diagnostic) and \<^verbatim>\<open>Leapfrog\<close> (a ComputeTool), registers them
  and runs a \<^verbatim>\<open>Simulation\<close> over a configuration dictionary.

  Configuration values are Python objects; the ones a JSON-like dictionary can hold are
  the constructors of \<open>pyval\<close>. A dictionary block handed to a constructor
  (\<^verbatim>\<open>input_data\<close>) is a map from keys to values.

  Numbers: the program computes with IEEE doubles held in numpy arrays. The embedding is
  over an arbitrary carrier \<open>'a\<close> for the integrator step and the module's update (so
  that what is proved about their assignments uses no law of arithmetic) and over the
  exact reals where a run of the whole simulation is followed; rounding, infinities and
  NaN are not modelled, and nothing is stated here about the size of a computed value.
\<close>

datatype pyval =
    PNone
  | PBool bool
  | PInt int
  | PFloat real
  | PStr string
  | PList "pyval list"
  | PDict "(string \<times> pyval) list"

type_synonym pydict = "string \<rightharpoonup> pyval"

datatype error =
    TypeError
  | KeyError
  | IndexError
  | AttributeError
  | ValueError
  | DuplicateNameError
  | UnknownTypeError
  | InvalidConfigError
  | DuplicateResourceError
  | UnknownResourceError
  | SinkOverflowError
  | ToolNotFound
  | RunRejected
  | NotModelled

text \<open>
  The first five are Python's own exceptions. The next six are the error classes of the
  framework that the specification names. \<open>ToolNotFound\<close> stands for whatever the
  framework raises when a tool name is looked up and absent, \<open>RunRejected\<close> for the
  rejection of a second \<^verbatim>\<open>run()\<close>. \<open>NotModelled\<close> is no exception of the program: it
  marks an input on which numpy would go on (by broadcasting or by converting its
  argument) in a way this embedding does not follow; nothing is proved about such inputs.
\<close>

text \<open>\<^verbatim>\<open>d.get(key, default)\<close> and \<^verbatim>\<open>d[key]\<close>.\<close>

definition py_get :: "pydict \<Rightarrow> string \<Rightarrow> pyval \<Rightarrow> pyval" where
  "py_get d key dflt = (case d key of None \<Rightarrow> dflt | Some v \<Rightarrow> v)"

definition py_item :: "pydict \<Rightarrow> string \<Rightarrow> error + pyval" where
  "py_item d key = (case d key of None \<Rightarrow> Inl KeyError | Some v \<Rightarrow> Inr v)"

text \<open>
  A Python scalar that numpy accepts as a number in arithmetic with a float array:
  \<^verbatim>\<open>int\<close>, \<^verbatim>\<open>float\<close> and \<^verbatim>\<open>bool\<close>.
\<close>

fun py_number :: "pyval \<Rightarrow> real option" where
  "py_number (PInt i) = Some (of_int i)"
| "py_number (PFloat r) = Some r"
| "py_number (PBool b) = Some (if b then 1 else 0)"
| "py_number _ = None"

text \<open>
  A two-dimensional numpy array is the list of its rows. Arrays live in a store: a name
  such as \<^verbatim>\<open>self.position\<close> holds an address, and the slice assignment
  \<^verbatim>\<open>a[:] = e\<close> replaces the contents at the address of \<^verbatim>\<open>a\<close>, which every other
  holder of that address then reads.
\<close>

type_synonym 'a ndarray = "'a list list"
type_synonym addr = nat
type_synonym 'a heap = "addr \<Rightarrow> 'a ndarray"

definition shape :: "'a ndarray \<Rightarrow> nat list" where
  "shape a = map length a"

text \<open>Elementwise \<^verbatim>\<open>a + b\<close>, \<^verbatim>\<open>a - b\<close>, and the scalar forms \<^verbatim>\<open>c * a\<close>, \<^verbatim>\<open>a / c\<close>.\<close>

definition arr_add :: "'a::plus ndarray \<Rightarrow> 'a ndarray \<Rightarrow> 'a ndarray" where
  "arr_add a b = map2 (map2 (+)) a b"

definition arr_sub :: "'a::minus ndarray \<Rightarrow> 'a ndarray \<Rightarrow> 'a ndarray" where
  "arr_sub a b = map2 (map2 (-)) a b"

definition arr_smul :: "'a::times \<Rightarrow> 'a ndarray \<Rightarrow> 'a ndarray" where
  "arr_smul c a = map (map (\<lambda>v. c * v)) a"

definition arr_sdiv :: "'a::inverse ndarray \<Rightarrow> 'a \<Rightarrow> 'a ndarray" where
  "arr_sdiv a c = map (map (\<lambda>v. v / c)) a"

section \<open>The simulation clock\<close>

text \<open>
  Modelled from the spec: the Clock of the framework (the notebook imports it with
  \<^verbatim>\<open>turbopy\<close>; its code is not among the sources). Section 4.2: constructed from
  \<^verbatim>\<open>{start_time, end_time, num_steps}\<close>, all required, \<^verbatim>\<open>num_steps\<close> a positive
  integer, \<^verbatim>\<open>end_time > start_time\<close>, InvalidConfigError otherwise; section 3: it
  derives \<^verbatim>\<open>dt = (end_time - start_time)/num_steps\<close>; \<^verbatim>\<open>advance()\<close> increments
  \<^verbatim>\<open>current_step\<close> by 1 and \<^verbatim>\<open>current_time\<close> by \<^verbatim>\<open>dt\<close>; \<^verbatim>\<open>is_finished()\<close> is
  \<^verbatim>\<open>current_step >= num_steps\<close>.
\<close>

record Clock =
  start_time :: real
  end_time :: real
  num_steps :: int
  clock_dt :: real
  current_time :: real
  current_step :: int

definition Clock_init :: "pydict \<Rightarrow> error + Clock" where
  "Clock_init input_data =
     (case input_data ''num_steps'' of
        Some (PInt n) \<Rightarrow>
          (case (input_data ''start_time'', input_data ''end_time'') of
             (Some s, Some e) \<Rightarrow>
               (case (py_number s, py_number e) of
                  (Some t0, Some t1) \<Rightarrow>
                    if 0 < n \<and> t0 < t1
                    then Inr \<lparr>start_time = t0, end_time = t1, num_steps = n,
                              clock_dt = (t1 - t0) / of_int n,
                              current_time = t0, current_step = 0\<rparr>
                    else Inl InvalidConfigError
                | _ \<Rightarrow> Inl InvalidConfigError)
           | _ \<Rightarrow> Inl InvalidConfigError)
      | _ \<Rightarrow> Inl InvalidConfigError)"

definition Clock_advance :: "Clock \<Rightarrow> Clock" where
  "Clock_advance c =
     c\<lparr>current_step := current_step c + 1, current_time := current_time c + clock_dt c\<rparr>"

definition Clock_is_finished :: "Clock \<Rightarrow> bool" where
  "Clock_is_finished c = (num_steps c \<le> current_step c)"

section \<open>The registries\<close>

text \<open>
  Modelled from the spec: the per-family Registry of the framework (section 4.1), behind
  the notebook's \<^verbatim>\<open>PhysicsModule.register("BlockOnSpring", BlockOnSpring)\<close> and its two
  siblings. \<^verbatim>\<open>register(name, factory)\<close> fails with DuplicateNameError if the name is
  present; \<^verbatim>\<open>create(name, owner, config)\<close> fails with UnknownTypeError if the name is
  absent and otherwise invokes the stored factory and returns the new instance. A
  factory is a constructor, which may raise: it returns an error or the instance.
\<close>

type_synonym ('o, 'c, 'i) registry = "string \<rightharpoonup> ('o \<Rightarrow> 'c \<Rightarrow> error + 'i)"

definition register ::
  "string \<Rightarrow> ('o \<Rightarrow> 'c \<Rightarrow> error + 'i) \<Rightarrow> ('o, 'c, 'i) registry
     \<Rightarrow> error + ('o, 'c, 'i) registry" where
  "register name factory reg =
     (case reg name of
        Some _ \<Rightarrow> Inl DuplicateNameError
      | None \<Rightarrow> Inr (reg(name \<mapsto> factory)))"

definition create ::
  "string \<Rightarrow> 'o \<Rightarrow> 'c \<Rightarrow> ('o, 'c, 'i) registry \<Rightarrow> error + 'i" where
  "create name owner config reg =
     (case reg name of
        None \<Rightarrow> Inl UnknownTypeError
      | Some factory \<Rightarrow> factory owner config)"

section \<open>The resource directory\<close>

text \<open>
  Modelled from the spec: the Resource Directory of the framework (section 4.3), a map
  from resource names to buffer handles. \<^verbatim>\<open>publish(name, buffer)\<close> fails with
  DuplicateResourceError if the name is already published; \<^verbatim>\<open>subscribe(name)\<close> returns
  the shared buffer handle, and fails with UnknownResourceError if the name was never
  published. A handle is the address of the array, not its contents.
\<close>

type_synonym directory = "string \<rightharpoonup> addr"

definition publish :: "string \<Rightarrow> addr \<Rightarrow> directory \<Rightarrow> error + directory" where
  "publish name buffer dir =
     (case dir name of
        Some _ \<Rightarrow> Inl DuplicateResourceError
      | None \<Rightarrow> Inr (dir(name \<mapsto> buffer)))"

definition subscribe :: "string \<Rightarrow> directory \<Rightarrow> error + addr" where
  "subscribe name dir =
     (case dir name of
        None \<Rightarrow> Inl UnknownResourceError
      | Some buffer \<Rightarrow> Inr buffer)"

text \<open>
  Modelled from the spec: \<^verbatim>\<open>publish_resource(d)\<close>, the method of the framework's
  PhysicsModule base class that the notebook calls with a one-entry dictionary; it
  publishes every entry of the dictionary, in order.
\<close>

fun publish_resource :: "(string \<times> addr) list \<Rightarrow> directory \<Rightarrow> error + directory" where
  "publish_resource [] dir = Inr dir"
| "publish_resource ((name, buffer) # rest) dir =
     (case publish name buffer dir of
        Inl e \<Rightarrow> Inl e
      | Inr dir' \<Rightarrow> publish_resource rest dir')"

section \<open>The Leapfrog ComputeTool\<close>

text \<open>
  \<^verbatim>\<open>
  class Leapfrog(ComputeTool):
      def __init__(self, owner, input_data):
          super().__init__(owner, input_data)
          self.dt = None
      def initialize(self):
          self.dt = self.owner.clock.dt
      def push(self, position, momentum, mass, spring_constant):
          position[:] = position + self.dt * momentum / mass
          momentum[:] = momentum - self.dt * spring_constant * position
  \<close>
  The owner is passed to the operations that read it. Python evaluates
  \<^verbatim>\<open>self.dt * momentum / mass\<close> as \<^verbatim>\<open>(self.dt * momentum) / mass\<close> and
  \<^verbatim>\<open>self.dt * spring_constant * position\<close> as \<^verbatim>\<open>(self.dt * spring_constant) * position\<close>.
  With \<^verbatim>\<open>self.dt\<close> still \<^verbatim>\<open>None\<close> the first product raises a TypeError. The two
  arrays the module passes always have the same shape \<^verbatim>\<open>(1, 3)\<close>; for arrays of
  different shapes numpy either broadcasts or raises a ValueError, which is not modelled.
\<close>

record 'a Leapfrog =
  tool_input_data :: pydict
  dt :: "'a option"

definition Leapfrog_init :: "pydict \<Rightarrow> 'a Leapfrog" where
  "Leapfrog_init input_data = \<lparr>tool_input_data = input_data, dt = None\<rparr>"

definition Leapfrog_initialize :: "Clock \<Rightarrow> real Leapfrog \<Rightarrow> real Leapfrog" where
  "Leapfrog_initialize owner_clock self = self\<lparr>dt := Some (clock_dt owner_clock)\<rparr>"

definition Leapfrog_push ::
  "'a::{plus,minus,times,inverse} Leapfrog \<Rightarrow> 'a heap \<Rightarrow> addr \<Rightarrow> addr \<Rightarrow> 'a \<Rightarrow> 'a
     \<Rightarrow> error + 'a heap" where
  "Leapfrog_push self H position momentum mass spring_constant =
     (case dt self of
        None \<Rightarrow> Inl TypeError
      | Some h \<Rightarrow>
          if shape (H position) \<noteq> shape (H momentum) then Inl NotModelled
          else
            let H1 = H(position :=
                       arr_add (H position) (arr_sdiv (arr_smul h (H momentum)) mass));
                H2 = H1(momentum :=
                       arr_sub (H1 momentum) (arr_smul (h * spring_constant) (H1 position)))
            in Inr H2)"

section \<open>The BlockOnSpring PhysicsModule\<close>

text \<open>
  \<^verbatim>\<open>
  class BlockOnSpring(PhysicsModule):
      def __init__(self, owner, input_data):
          super().__init__(owner, input_data)
          self.position = np.zeros((1, 3))
          self.momentum = np.zeros((1, 3))
          self.mass = input_data.get('mass', 1)
          self.spring_constant = input_data.get('spring_constant', 1)
          self.push = owner.find_tool_by_name(input_data["pusher"]).push
      def initialize(self):
          self.position[:] = np.array(self.input_data["x0"])
      def exchange_resources(self):
          self.publish_resource({"Block:position": self.position})
          self.publish_resource({"Block:momentum": self.momentum})
      def update(self):
          self.push(self.position, self.momentum, self.mass, self.spring_constant)
  \<close>
  \<^verbatim>\<open>self.position\<close> and \<^verbatim>\<open>self.momentum\<close> are addresses of two fresh arrays.
  \<^verbatim>\<open>self.push\<close> is a method bound to the tool object, so the module holds the address
  of that tool: the tool's \<^verbatim>\<open>dt\<close>, set later by its \<^verbatim>\<open>initialize()\<close>, is read through
  it at every call.
\<close>

record BlockOnSpring =
  input_data :: pydict
  position :: addr
  momentum :: addr
  mass :: pyval
  spring_constant :: pyval
  push :: addr

text \<open>
  Modelled from the spec: \<^verbatim>\<open>owner.find_tool_by_name(name)\<close> of the framework's
  Simulation, which owns the tools and looks them up by name (section 2). The tools of a
  simulation are listed with their names; the result is the address of the first tool
  of that name.
\<close>

fun find_tool_by_name :: "(string \<times> addr) list \<Rightarrow> pyval \<Rightarrow> error + addr" where
  "find_tool_by_name [] name = Inl ToolNotFound"
| "find_tool_by_name ((n, tool) # rest) name =
     (if name = PStr n then Inr tool else find_tool_by_name rest name)"

definition BlockOnSpring_init ::
  "(string \<times> addr) list \<Rightarrow> real heap \<times> addr \<Rightarrow> pydict
     \<Rightarrow> error + (BlockOnSpring \<times> real heap \<times> addr)" where
  "BlockOnSpring_init owner_tools store input_data' =
     (let (H, free) = store;
          H1 = H(free := [[0, 0, 0]]);
          H2 = H1(Suc free := [[0, 0, 0]])
      in case py_item input_data' ''pusher'' of
           Inl e \<Rightarrow> Inl e
         | Inr name \<Rightarrow>
             (case find_tool_by_name owner_tools name of
                Inl e \<Rightarrow> Inl e
              | Inr tool \<Rightarrow>
                  Inr (\<lparr>input_data = input_data',
                        position = free,
                        momentum = Suc free,
                        mass = py_get input_data' ''mass'' (PInt 1),
                        spring_constant = py_get input_data' ''spring_constant'' (PInt 1),
                        push = tool\<rparr>,
                       H2, Suc (Suc free))))"

text \<open>
  \<^verbatim>\<open>self.position[:] = np.array(x0)\<close> for the \<^verbatim>\<open>(1, 3)\<close> array \<^verbatim>\<open>self.position\<close>: a
  number fills the row, a flat list of three numbers is the row, a flat list of one
  number fills the row, and a flat list of numbers of any other length cannot be
  broadcast (ValueError). Nested lists and entries that are not numbers are not
  modelled.
\<close>

fun py_numbers :: "pyval list \<Rightarrow> real list option" where
  "py_numbers [] = Some []"
| "py_numbers (v # vs) =
     (case py_number v of
        None \<Rightarrow> None
      | Some r \<Rightarrow> (case py_numbers vs of None \<Rightarrow> None | Some rs \<Rightarrow> Some (r # rs)))"

fun broadcast_row3 :: "real list \<Rightarrow> error + real list" where
  "broadcast_row3 [a] = Inr [a, a, a]"
| "broadcast_row3 [a, b, c] = Inr [a, b, c]"
| "broadcast_row3 _ = Inl ValueError"

definition assign_1x3 :: "pyval \<Rightarrow> error + real ndarray" where
  "assign_1x3 v =
     (case py_number v of
        Some r \<Rightarrow> Inr [[r, r, r]]
      | None \<Rightarrow>
          (case v of
             PList vs \<Rightarrow>
               (case py_numbers vs of
                  None \<Rightarrow> Inl NotModelled
                | Some r \<Rightarrow>
                    (case broadcast_row3 r of Inl e \<Rightarrow> Inl e | Inr row \<Rightarrow> Inr [row]))
           | _ \<Rightarrow> Inl NotModelled))"

definition BlockOnSpring_initialize :: "BlockOnSpring \<Rightarrow> real heap \<Rightarrow> error + real heap" where
  "BlockOnSpring_initialize self H =
     (case py_item (input_data self) ''x0'' of
        Inl e \<Rightarrow> Inl e
      | Inr x0 \<Rightarrow>
          (case assign_1x3 x0 of
             Inl e \<Rightarrow> Inl e
           | Inr a \<Rightarrow> Inr (H(position self := a))))"

definition BlockOnSpring_exchange_resources ::
  "BlockOnSpring \<Rightarrow> directory \<Rightarrow> error + directory" where
  "BlockOnSpring_exchange_resources self dir =
     (case publish_resource [(''Block:position'', position self)] dir of
        Inl e \<Rightarrow> Inl e
      | Inr dir' \<Rightarrow> publish_resource [(''Block:momentum'', momentum self)] dir')"

text \<open>
  \<^verbatim>\<open>mass\<close> and \<^verbatim>\<open>spring_constant\<close> are whatever the configuration held, and
  \<^verbatim>\<open>update\<close> hands them to \<^verbatim>\<open>push\<close> as they are. What a configuration value is as a
  number of the arrays' carrier is decided by numpy, which is not part of the program:
  it is the parameter \<open>number\<close>. The division by the mass is the carrier's own: the
  doubles give \<^verbatim>\<open>inf\<close> or \<^verbatim>\<open>nan\<close> for a mass of zero and go on, the reals of HOL
  give 0, and no value computed with a mass of zero is stated below.

  For the reals the conversion is \<open>coefficient\<close>: a number is used as it is, and
  \<^verbatim>\<open>None\<close>, a string or a dictionary raises a TypeError; a list is not modelled (numpy
  would divide by it elementwise).
\<close>

fun coefficient :: "pyval \<Rightarrow> error + real" where
  "coefficient (PList vs) = Inl NotModelled"
| "coefficient v = (case py_number v of None \<Rightarrow> Inl TypeError | Some r \<Rightarrow> Inr r)"

definition BlockOnSpring_update ::
  "(pyval \<Rightarrow> error + 'a) \<Rightarrow> (addr \<Rightarrow> 'a::{plus,minus,times,inverse} Leapfrog) \<Rightarrow> BlockOnSpring
     \<Rightarrow> 'a heap \<Rightarrow> error + 'a heap" where
  "BlockOnSpring_update number tool_objs' self H =
     (case number (mass self) of
        Inl e \<Rightarrow> Inl e
      | Inr m \<Rightarrow>
          (case number (spring_constant self) of
             Inl e \<Rightarrow> Inl e
           | Inr k \<Rightarrow>
               Leapfrog_push (tool_objs' (push self)) H (position self) (momentum self) m k))"

section \<open>The output sink\<close>

text \<open>
  Modelled from the spec: \<^verbatim>\<open>CSVOutputUtility\<close>, imported from the framework.
  Section 6: constructed with a target path and an expected \<^verbatim>\<open>(rows, columns)\<close> shape;
  \<^verbatim>\<open>append(row)\<close> fails (SinkOverflowError, section 7) if called more times than the
  declared row count; \<^verbatim>\<open>finalize()\<close> flushes and closes. The rows appended so far are
  \<open>buffer\<close> (the notebook reads them back as \<^verbatim>\<open>csv._buffer\<close>). The file at the target
  path is \<open>written\<close>: nothing until \<^verbatim>\<open>finalize()\<close> flushes the rows appended so far into
  it, "one row per step plus one for the final snapshot"; a row appended later is not in
  the file.
\<close>

record CSVOutputUtility =
  filename :: pyval
  diagnostic_size :: "int \<times> int"
  buffer :: "real list list"
  finalized :: bool
  written :: "real list list option"

definition CSVOutputUtility_init :: "pyval \<Rightarrow> int \<times> int \<Rightarrow> CSVOutputUtility" where
  "CSVOutputUtility_init path size' =
     \<lparr>filename = path, diagnostic_size = size', buffer = [], finalized = False,
      written = None\<rparr>"

definition CSV_append :: "CSVOutputUtility \<Rightarrow> real list \<Rightarrow> error + CSVOutputUtility" where
  "CSV_append self row =
     (if fst (diagnostic_size self) \<le> int (length (buffer self)) then Inl SinkOverflowError
      else Inr (self\<lparr>buffer := buffer self @ [row]\<rparr>))"

definition CSV_finalize :: "CSVOutputUtility \<Rightarrow> CSVOutputUtility" where
  "CSV_finalize self = self\<lparr>finalized := True, written := Some (buffer self)\<rparr>"

section \<open>The BlockDiagnostic\<close>

text \<open>
  \<^verbatim>\<open>
  class BlockDiagnostic(Diagnostic):
      def __init__(self, owner, input_data):
          super().__init__(owner, input_data)
          self.data = None
          self.component = input_data.get("component", 1)
          self.output_function = None
          self.csv = None
      def inspect_resource(self, resource):
          if "Block:" + self.component in resource:
              self.data = resource["Block:" + self.component]
      def diagnose(self):
          self.output_function(self.data[0, :])
      def initialize(self):
          functions = {"stdout": self.print_diagnose, "csv": self.csv_diagnose}
          self.output_function = functions[self.input_data["output_type"]]
          if self.input_data["output_type"] == "csv":
              diagnostic_size = (self.owner.clock.num_steps + 1, 3)
              self.csv = CSVOutputUtility(self.input_data["filename"], diagnostic_size)
      def finalize(self):
          self.diagnose()
          if self.input_data["output_type"] == "csv":
              self.csv.finalize()
      def print_diagnose(self, data):
          print(data)
      def csv_diagnose(self, data):
          self.csv.append(data)
  \<close>
  \<^verbatim>\<open>self.data\<close> is \<^verbatim>\<open>None\<close> or the address of an array. What \<^verbatim>\<open>print\<close> writes goes to
  a list of printed rows that the operations pass along.
\<close>

datatype output_function = print_diagnose | csv_diagnose

record BlockDiagnostic =
  diag_input_data :: pydict
  data :: "addr option"
  component :: pyval
  output_function :: "output_function option"
  csv :: "CSVOutputUtility option"

definition BlockDiagnostic_init :: "pydict \<Rightarrow> BlockDiagnostic" where
  "BlockDiagnostic_init input_data' =
     \<lparr>diag_input_data = input_data',
      data = None,
      component = py_get input_data' ''component'' (PInt 1),
      output_function = None,
      csv = None\<rparr>"

text \<open>\<^verbatim>\<open>"Block:" + self.component\<close>: Python concatenates a string only with a string.\<close>

definition resource_key :: "BlockDiagnostic \<Rightarrow> error + string" where
  "resource_key self =
     (case component self of
        PStr s \<Rightarrow> Inr (''Block:'' @ s)
      | _ \<Rightarrow> Inl TypeError)"

definition BlockDiagnostic_inspect_resource ::
  "BlockDiagnostic \<Rightarrow> directory \<Rightarrow> error + BlockDiagnostic" where
  "BlockDiagnostic_inspect_resource self resource =
     (case resource_key self of
        Inl e \<Rightarrow> Inl e
      | Inr key \<Rightarrow>
          (case resource key of
             None \<Rightarrow> Inr self
           | Some buffer' \<Rightarrow> Inr (self\<lparr>data := Some buffer'\<rparr>)))"

text \<open>
  \<^verbatim>\<open>self.data[0, :]\<close>, row 0 of the array that \<^verbatim>\<open>self.data\<close> refers to, as the array is
  in the store at the moment of the call: \<^verbatim>\<open>data = None\<close> raises a TypeError, an array
  without rows an IndexError.
\<close>

definition BlockDiagnostic_read :: "BlockDiagnostic \<Rightarrow> 'a heap \<Rightarrow> error + 'a list" where
  "BlockDiagnostic_read self H =
     (case data self of
        None \<Rightarrow> Inl TypeError
      | Some a \<Rightarrow> (case H a of [] \<Rightarrow> Inl IndexError | row # _ \<Rightarrow> Inr row))"

text \<open>
  \<^verbatim>\<open>self.output_function(self.data[0, :])\<close>: the argument is evaluated before the call,
  so the errors of the read come first, then the call of \<^verbatim>\<open>None\<close> (TypeError).
\<close>

definition BlockDiagnostic_diagnose ::
  "BlockDiagnostic \<Rightarrow> real heap \<Rightarrow> real list list
     \<Rightarrow> error + (BlockDiagnostic \<times> real list list)" where
  "BlockDiagnostic_diagnose self H printed =
     (case BlockDiagnostic_read self H of
        Inl e \<Rightarrow> Inl e
      | Inr row \<Rightarrow>
          (case output_function self of
             None \<Rightarrow> Inl TypeError
           | Some print_diagnose \<Rightarrow> Inr (self, printed @ [row])
           | Some csv_diagnose \<Rightarrow>
               (case csv self of
                  None \<Rightarrow> Inl AttributeError
                | Some sink \<Rightarrow>
                    (case CSV_append sink row of
                       Inl e \<Rightarrow> Inl e
                     | Inr sink' \<Rightarrow> Inr (self\<lparr>csv := Some sink'\<rparr>, printed)))))"

text \<open>
  \<^verbatim>\<open>functions[self.input_data["output_type"]]\<close>: a missing key raises KeyError, so does
  a value that is not one of the two names, and an unhashable value (a list or a
  dictionary) raises TypeError.
\<close>

definition BlockDiagnostic_initialize ::
  "Clock \<Rightarrow> BlockDiagnostic \<Rightarrow> error + BlockDiagnostic" where
  "BlockDiagnostic_initialize owner_clock self =
     (case py_item (diag_input_data self) ''output_type'' of
        Inl e \<Rightarrow> Inl e
      | Inr (PList _) \<Rightarrow> Inl TypeError
      | Inr (PDict _) \<Rightarrow> Inl TypeError
      | Inr t \<Rightarrow>
          if t = PStr ''stdout'' then Inr (self\<lparr>output_function := Some print_diagnose\<rparr>)
          else if t = PStr ''csv'' then
            (case py_item (diag_input_data self) ''filename'' of
               Inl e \<Rightarrow> Inl e
             | Inr path \<Rightarrow>
                 Inr (self\<lparr>output_function := Some csv_diagnose,
                           csv := Some (CSVOutputUtility_init path
                                          (num_steps owner_clock + 1, 3))\<rparr>))
          else Inl KeyError)"

definition BlockDiagnostic_finalize ::
  "BlockDiagnostic \<Rightarrow> real heap \<Rightarrow> real list list
     \<Rightarrow> error + (BlockDiagnostic \<times> real list list)" where
  "BlockDiagnostic_finalize self H printed =
     (case BlockDiagnostic_diagnose self H printed of
        Inl e \<Rightarrow> Inl e
      | Inr (self', printed') \<Rightarrow>
          (case py_item (diag_input_data self') ''output_type'' of
             Inl e \<Rightarrow> Inl e
           | Inr t \<Rightarrow>
               if t = PStr ''csv'' then
                 (case csv self' of
                    None \<Rightarrow> Inl AttributeError
                  | Some sink \<Rightarrow> Inr (self'\<lparr>csv := Some (CSV_finalize sink)\<rparr>, printed'))
               else Inr (self', printed')))"

section \<open>The clock diagnostic\<close>

text \<open>
  Modelled from the spec: the framework's diagnostic behind the \<^verbatim>\<open>"clock"\<close> entry of
  the \<^verbatim>\<open>Diagnostics\<close> section, "a Diagnostic over the time series itself" (section 6).
  Like every Diagnostic (section 4.4) it forwards one snapshot per step to its sink, here
  the one-column row of the clock's current time, and its \<^verbatim>\<open>finalize()\<close> performs one
  extra sample before closing the sink. Its sink is chosen by \<^verbatim>\<open>output_type\<close> as in the
  notebook's diagnostic, with a declared size of \<^verbatim>\<open>(num_steps + 1, 1)\<close>.
\<close>

record ClockDiagnostic =
  clock_input_data :: pydict
  clock_output_function :: "output_function option"
  clock_csv :: "CSVOutputUtility option"

definition ClockDiagnostic_init :: "pydict \<Rightarrow> ClockDiagnostic" where
  "ClockDiagnostic_init input_data' =
     \<lparr>clock_input_data = input_data', clock_output_function = None, clock_csv = None\<rparr>"

definition ClockDiagnostic_initialize ::
  "Clock \<Rightarrow> ClockDiagnostic \<Rightarrow> error + ClockDiagnostic" where
  "ClockDiagnostic_initialize owner_clock self =
     (case py_item (clock_input_data self) ''output_type'' of
        Inl e \<Rightarrow> Inl e
      | Inr t \<Rightarrow>
          if t = PStr ''stdout''
          then Inr (self\<lparr>clock_output_function := Some print_diagnose\<rparr>)
          else if t = PStr ''csv'' then
            (case py_item (clock_input_data self) ''filename'' of
               Inl e \<Rightarrow> Inl e
             | Inr path \<Rightarrow>
                 Inr (self\<lparr>clock_output_function := Some csv_diagnose,
                           clock_csv := Some (CSVOutputUtility_init path
                                                (num_steps owner_clock + 1, 1))\<rparr>))
          else Inl InvalidConfigError)"

definition ClockDiagnostic_diagnose ::
  "Clock \<Rightarrow> ClockDiagnostic \<Rightarrow> real list list
     \<Rightarrow> error + (ClockDiagnostic \<times> real list list)" where
  "ClockDiagnostic_diagnose owner_clock self printed =
     (case clock_output_function self of
        None \<Rightarrow> Inl TypeError
      | Some print_diagnose \<Rightarrow> Inr (self, printed @ [[current_time owner_clock]])
      | Some csv_diagnose \<Rightarrow>
          (case clock_csv self of
             None \<Rightarrow> Inl AttributeError
           | Some sink \<Rightarrow>
               (case CSV_append sink [current_time owner_clock] of
                  Inl e \<Rightarrow> Inl e
                | Inr sink' \<Rightarrow> Inr (self\<lparr>clock_csv := Some sink'\<rparr>, printed))))"

definition ClockDiagnostic_finalize ::
  "Clock \<Rightarrow> ClockDiagnostic \<Rightarrow> real list list
     \<Rightarrow> error + (ClockDiagnostic \<times> real list list)" where
  "ClockDiagnostic_finalize owner_clock self printed =
     (case ClockDiagnostic_diagnose owner_clock self printed of
        Inl e \<Rightarrow> Inl e
      | Inr (self', printed') \<Rightarrow>
          (case clock_csv self' of
             None \<Rightarrow> Inr (self', printed')
           | Some sink \<Rightarrow> Inr (self'\<lparr>clock_csv := Some (CSV_finalize sink)\<rparr>, printed')))"

section \<open>The Simulation\<close>

text \<open>
  Modelled from the spec: the framework's \<^verbatim>\<open>Simulation\<close>, which the notebook
  constructs from its \<^verbatim>\<open>input_data\<close> and runs; its code is not among the sources.
  Section 4.5 gives its states and what each transition does, section 4.3 the order of
  the exchange phase, section 6 the configuration. The diagnostics of a simulation are
  the two kinds above; its tools and physics modules are the notebook's.

  A module's publish step is its \<^verbatim>\<open>exchange_resources()\<close>; a diagnostic's subscribe step
  hands the directory to its \<^verbatim>\<open>inspect_resource\<close>.

  Every call the orchestrator makes on a component is recorded in \<open>trace\<close>, with the
  component's place in construction order.
\<close>

datatype diagnostic = ClockDiag ClockDiagnostic | BlockDiag BlockDiagnostic

datatype phase = Uninitialized | Building | Initializing | Running | Finalized

datatype event =
    InitializeTool nat
  | InitializeModule nat
  | InitializeDiagnostic nat
  | ExchangePublish nat
  | ExchangeSubscribe nat
  | Update nat
  | Diagnose nat
  | Advance
  | Finalize nat

record Simulation =
  clock :: Clock
  tools :: "(string \<times> addr) list"
  tool_objs :: "addr \<Rightarrow> real Leapfrog"
  physics_modules :: "BlockOnSpring list"
  diagnostics :: "diagnostic list"
  heap :: "real heap"
  free :: addr
  resources :: directory
  printed_rows :: "real list list"
  trace :: "event list"
  phase :: phase

text \<open>
  The two loops over components: \<open>for_each\<close> calls an action on every element in list
  order, threading a state; \<open>map_each\<close> does the same for an action that also changes
  the element. The first error ends the loop, as an exception would.
\<close>

fun for_each ::
  "(nat \<Rightarrow> event) \<Rightarrow> ('x \<Rightarrow> 's \<Rightarrow> error + 's) \<Rightarrow> nat \<Rightarrow> 'x list \<Rightarrow> 's \<Rightarrow> event list
     \<Rightarrow> error + ('s \<times> event list)" where
  "for_each ev f i [] s tr = Inr (s, tr)"
| "for_each ev f i (x # xs) s tr =
     (case f x s of
        Inl e \<Rightarrow> Inl e
      | Inr s' \<Rightarrow> for_each ev f (Suc i) xs s' (tr @ [ev i]))"

fun map_each ::
  "(nat \<Rightarrow> event) \<Rightarrow> ('x \<Rightarrow> 's \<Rightarrow> error + ('x \<times> 's)) \<Rightarrow> nat \<Rightarrow> 'x list \<Rightarrow> 's \<Rightarrow> event list
     \<Rightarrow> error + ('x list \<times> 's \<times> event list)" where
  "map_each ev f i [] s tr = Inr ([], s, tr)"
| "map_each ev f i (x # xs) s tr =
     (case f x s of
        Inl e \<Rightarrow> Inl e
      | Inr (x', s') \<Rightarrow>
          (case map_each ev f (Suc i) xs s' (tr @ [ev i]) of
             Inl e \<Rightarrow> Inl e
           | Inr (xs', s'', tr') \<Rightarrow> Inr (x' # xs', s'', tr')))"

subsection \<open>The actions on a diagnostic of either kind\<close>

fun diagnostic_initialize :: "Clock \<Rightarrow> diagnostic \<Rightarrow> unit \<Rightarrow> error + (diagnostic \<times> unit)" where
  "diagnostic_initialize c (ClockDiag d) () =
     (case ClockDiagnostic_initialize c d of Inl e \<Rightarrow> Inl e | Inr d' \<Rightarrow> Inr (ClockDiag d', ()))"
| "diagnostic_initialize c (BlockDiag d) () =
     (case BlockDiagnostic_initialize c d of Inl e \<Rightarrow> Inl e | Inr d' \<Rightarrow> Inr (BlockDiag d', ()))"

fun diagnostic_subscribe :: "directory \<Rightarrow> diagnostic \<Rightarrow> unit \<Rightarrow> error + (diagnostic \<times> unit)" where
  "diagnostic_subscribe dir (ClockDiag d) () = Inr (ClockDiag d, ())"
| "diagnostic_subscribe dir (BlockDiag d) () =
     (case BlockDiagnostic_inspect_resource d dir of
        Inl e \<Rightarrow> Inl e
      | Inr d' \<Rightarrow> Inr (BlockDiag d', ()))"

fun diagnostic_diagnose ::
  "Clock \<Rightarrow> real heap \<Rightarrow> diagnostic \<Rightarrow> real list list
     \<Rightarrow> error + (diagnostic \<times> real list list)" where
  "diagnostic_diagnose c H (ClockDiag d) printed =
     (case ClockDiagnostic_diagnose c d printed of
        Inl e \<Rightarrow> Inl e
      | Inr (d', printed') \<Rightarrow> Inr (ClockDiag d', printed'))"
| "diagnostic_diagnose c H (BlockDiag d) printed =
     (case BlockDiagnostic_diagnose d H printed of
        Inl e \<Rightarrow> Inl e
      | Inr (d', printed') \<Rightarrow> Inr (BlockDiag d', printed'))"

fun diagnostic_finalize ::
  "Clock \<Rightarrow> real heap \<Rightarrow> diagnostic \<Rightarrow> real list list
     \<Rightarrow> error + (diagnostic \<times> real list list)" where
  "diagnostic_finalize c H (ClockDiag d) printed =
     (case ClockDiagnostic_finalize c d printed of
        Inl e \<Rightarrow> Inl e
      | Inr (d', printed') \<Rightarrow> Inr (ClockDiag d', printed'))"
| "diagnostic_finalize c H (BlockDiag d) printed =
     (case BlockDiagnostic_finalize d H printed of
        Inl e \<Rightarrow> Inl e
      | Inr (d', printed') \<Rightarrow> Inr (BlockDiag d', printed'))"

subsection \<open>Building\<close>

text \<open>
  The registries hold the constructors; a constructor gets the simulation as its owner
  and, since allocating an array changes the store the simulation carries, hands the
  simulation back.
\<close>

type_synonym 'i factory = "Simulation \<Rightarrow> pydict \<Rightarrow> error + ('i \<times> Simulation)"

definition Leapfrog_factory :: "(real Leapfrog) factory" where
  "Leapfrog_factory owner config = Inr (Leapfrog_init config, owner)"

definition BlockOnSpring_factory :: "BlockOnSpring factory" where
  "BlockOnSpring_factory owner config =
     (case BlockOnSpring_init (tools owner) (heap owner, free owner) config of
        Inl e \<Rightarrow> Inl e
      | Inr (m, H, free') \<Rightarrow> Inr (m, owner\<lparr>heap := H, free := free'\<rparr>))"

definition BlockDiagnostic_factory :: "diagnostic factory" where
  "BlockDiagnostic_factory owner config = Inr (BlockDiag (BlockDiagnostic_init config), owner)"

definition ClockDiagnostic_factory :: "diagnostic factory" where
  "ClockDiagnostic_factory owner config = Inr (ClockDiag (ClockDiagnostic_init config), owner)"

record registries =
  tool_registry :: "(Simulation, pydict, real Leapfrog \<times> Simulation) registry"
  module_registry :: "(Simulation, pydict, BlockOnSpring \<times> Simulation) registry"
  diagnostic_registry :: "(Simulation, pydict, diagnostic \<times> Simulation) registry"

definition as_dict :: "pyval \<Rightarrow> error + pydict" where
  "as_dict v = (case v of PDict kvs \<Rightarrow> Inr (map_of kvs) | _ \<Rightarrow> Inl InvalidConfigError)"

definition section_entries :: "(string \<times> pyval) list \<Rightarrow> string \<Rightarrow> error + (string \<times> pyval) list" where
  "section_entries sections name =
     (case map_of sections name of
        None \<Rightarrow> Inr []
      | Some (PDict kvs) \<Rightarrow> Inr kvs
      | Some _ \<Rightarrow> Inl InvalidConfigError)"

fun build_tools ::
  "(Simulation, pydict, real Leapfrog \<times> Simulation) registry \<Rightarrow> (string \<times> pyval) list
     \<Rightarrow> Simulation \<Rightarrow> error + Simulation" where
  "build_tools reg [] sim = Inr sim"
| "build_tools reg ((name, v) # rest) sim =
     (case as_dict v of
        Inl e \<Rightarrow> Inl e
      | Inr config \<Rightarrow>
          (case create name sim config reg of
             Inl e \<Rightarrow> Inl e
           | Inr (tool, sim') \<Rightarrow>
               build_tools reg rest
                 (sim'\<lparr>tools := tools sim' @ [(name, length (tools sim'))],
                       tool_objs := (tool_objs sim')(length (tools sim') := tool)\<rparr>)))"

fun build_modules ::
  "(Simulation, pydict, BlockOnSpring \<times> Simulation) registry \<Rightarrow> (string \<times> pyval) list
     \<Rightarrow> Simulation \<Rightarrow> error + Simulation" where
  "build_modules reg [] sim = Inr sim"
| "build_modules reg ((name, v) # rest) sim =
     (case as_dict v of
        Inl e \<Rightarrow> Inl e
      | Inr config \<Rightarrow>
          (case create name sim config reg of
             Inl e \<Rightarrow> Inl e
           | Inr (m, sim') \<Rightarrow>
               build_modules reg rest
                 (sim'\<lparr>physics_modules := physics_modules sim' @ [m]\<rparr>)))"

text \<open>
  The \<^verbatim>\<open>Diagnostics\<close> section (section 6): \<^verbatim>\<open>directory\<close> and \<^verbatim>\<open>output_type\<close> are
  values for every diagnostic ("default values come first", the notebook says of them);
  an entry whose value is a dictionary yields one diagnostic of the type its key names,
  an entry whose value is a list yields one per element, in order. A diagnostic's
  configuration is its own dictionary over the defaults.
\<close>

fun diagnostic_defaults :: "(string \<times> pyval) list \<Rightarrow> (string \<times> pyval) list" where
  "diagnostic_defaults [] = []"
| "diagnostic_defaults ((k, PDict c) # rest) = diagnostic_defaults rest"
| "diagnostic_defaults ((k, PList cs) # rest) = diagnostic_defaults rest"
| "diagnostic_defaults ((k, v) # rest) = (k, v) # diagnostic_defaults rest"

fun diagnostic_entries :: "(string \<times> pyval) list \<Rightarrow> (string \<times> pyval) list" where
  "diagnostic_entries [] = []"
| "diagnostic_entries ((k, PDict c) # rest) = (k, PDict c) # diagnostic_entries rest"
| "diagnostic_entries ((k, PList cs) # rest) = map (Pair k) cs @ diagnostic_entries rest"
| "diagnostic_entries ((k, v) # rest) = diagnostic_entries rest"

fun build_diagnostics ::
  "(Simulation, pydict, diagnostic \<times> Simulation) registry \<Rightarrow> pydict \<Rightarrow> (string \<times> pyval) list
     \<Rightarrow> Simulation \<Rightarrow> error + Simulation" where
  "build_diagnostics reg defaults [] sim = Inr sim"
| "build_diagnostics reg defaults ((name, v) # rest) sim =
     (case as_dict v of
        Inl e \<Rightarrow> Inl e
      | Inr config \<Rightarrow>
          (case create name sim (defaults ++ config) reg of
             Inl e \<Rightarrow> Inl e
           | Inr (d, sim') \<Rightarrow>
               build_diagnostics reg defaults rest
                 (sim'\<lparr>diagnostics := diagnostics sim' @ [d]\<rparr>)))"

definition Simulation_init :: "registries \<Rightarrow> pyval \<Rightarrow> error + Simulation" where
  "Simulation_init regs input_data' =
     (case input_data' of
        PDict sections \<Rightarrow>
          (case map_of sections ''Clock'' of
             None \<Rightarrow> Inl InvalidConfigError
           | Some cv \<Rightarrow>
          (case as_dict cv of
             Inl e \<Rightarrow> Inl e
           | Inr cc \<Rightarrow>
          (case Clock_init cc of
             Inl e \<Rightarrow> Inl e
           | Inr clk \<Rightarrow>
          (case section_entries sections ''Tools'' of
             Inl e \<Rightarrow> Inl e
           | Inr ts \<Rightarrow>
          (case section_entries sections ''PhysicsModules'' of
             Inl e \<Rightarrow> Inl e
           | Inr ms \<Rightarrow>
          (case section_entries sections ''Diagnostics'' of
             Inl e \<Rightarrow> Inl e
           | Inr ds \<Rightarrow>
          (case build_tools (tool_registry regs) ts
                  \<lparr>clock = clk, tools = [], tool_objs = (\<lambda>a. Leapfrog_init Map.empty),
                   physics_modules = [], diagnostics = [], heap = (\<lambda>a. []), free = 0,
                   resources = Map.empty, printed_rows = [], trace = [],
                   phase = Building\<rparr> of
             Inl e \<Rightarrow> Inl e
           | Inr sim1 \<Rightarrow>
          (case build_modules (module_registry regs) ms sim1 of
             Inl e \<Rightarrow> Inl e
           | Inr sim2 \<Rightarrow>
               build_diagnostics (diagnostic_registry regs)
                 (map_of (diagnostic_defaults ds)) (diagnostic_entries ds) sim2))))))))
      | _ \<Rightarrow> Inl InvalidConfigError)"

subsection \<open>Initializing, running, finalizing\<close>

definition initialize_tools :: "Simulation \<Rightarrow> error + Simulation" where
  "initialize_tools sim =
     (case for_each InitializeTool
             (\<lambda>(name, a) objs. Inr (objs(a := Leapfrog_initialize (clock sim) (objs a))))
             0 (tools sim) (tool_objs sim) (trace sim) of
        Inl e \<Rightarrow> Inl e
      | Inr (objs, tr) \<Rightarrow> Inr (sim\<lparr>tool_objs := objs, trace := tr\<rparr>))"

definition initialize_modules :: "Simulation \<Rightarrow> error + Simulation" where
  "initialize_modules sim =
     (case for_each InitializeModule BlockOnSpring_initialize
             0 (physics_modules sim) (heap sim) (trace sim) of
        Inl e \<Rightarrow> Inl e
      | Inr (H, tr) \<Rightarrow> Inr (sim\<lparr>heap := H, trace := tr\<rparr>))"

definition initialize_diagnostics :: "Simulation \<Rightarrow> error + Simulation" where
  "initialize_diagnostics sim =
     (case map_each InitializeDiagnostic (diagnostic_initialize (clock sim))
             0 (diagnostics sim) () (trace sim) of
        Inl e \<Rightarrow> Inl e
      | Inr (ds, u, tr) \<Rightarrow> Inr (sim\<lparr>diagnostics := ds, trace := tr\<rparr>))"

definition exchange_publish :: "Simulation \<Rightarrow> error + Simulation" where
  "exchange_publish sim =
     (case for_each ExchangePublish BlockOnSpring_exchange_resources
             0 (physics_modules sim) (resources sim) (trace sim) of
        Inl e \<Rightarrow> Inl e
      | Inr (dir, tr) \<Rightarrow> Inr (sim\<lparr>resources := dir, trace := tr\<rparr>))"

definition exchange_subscribe :: "Simulation \<Rightarrow> error + Simulation" where
  "exchange_subscribe sim =
     (case map_each ExchangeSubscribe (diagnostic_subscribe (resources sim))
             0 (diagnostics sim) () (trace sim) of
        Inl e \<Rightarrow> Inl e
      | Inr (ds, u, tr) \<Rightarrow> Inr (sim\<lparr>diagnostics := ds, trace := tr\<rparr>))"

definition update_modules :: "Simulation \<Rightarrow> error + Simulation" where
  "update_modules sim =
     (case for_each Update (BlockOnSpring_update coefficient (tool_objs sim))
             0 (physics_modules sim) (heap sim) (trace sim) of
        Inl e \<Rightarrow> Inl e
      | Inr (H, tr) \<Rightarrow> Inr (sim\<lparr>heap := H, trace := tr\<rparr>))"

definition diagnose_all :: "Simulation \<Rightarrow> error + Simulation" where
  "diagnose_all sim =
     (case map_each Diagnose (diagnostic_diagnose (clock sim) (heap sim))
             0 (diagnostics sim) (printed_rows sim) (trace sim) of
        Inl e \<Rightarrow> Inl e
      | Inr (ds, out, tr) \<Rightarrow> Inr (sim\<lparr>diagnostics := ds, printed_rows := out, trace := tr\<rparr>))"

definition advance_clock :: "Simulation \<Rightarrow> Simulation" where
  "advance_clock sim = sim\<lparr>clock := Clock_advance (clock sim), trace := trace sim @ [Advance]\<rparr>"

definition finalize_all :: "Simulation \<Rightarrow> error + Simulation" where
  "finalize_all sim =
     (case map_each Finalize (diagnostic_finalize (clock sim) (heap sim))
             0 (diagnostics sim) (printed_rows sim) (trace sim) of
        Inl e \<Rightarrow> Inl e
      | Inr (ds, out, tr) \<Rightarrow> Inr (sim\<lparr>diagnostics := ds, printed_rows := out, trace := tr\<rparr>))"

text \<open>
  One iteration of the step loop: every PhysicsModule's per-step action, every
  Diagnostic's per-step action, then \<^verbatim>\<open>Clock.advance()\<close>.
\<close>

definition loop_body :: "Simulation \<Rightarrow> error + Simulation" where
  "loop_body sim =
     (case update_modules sim of
        Inl e \<Rightarrow> Inl e
      | Inr sim1 \<Rightarrow>
          (case diagnose_all sim1 of
             Inl e \<Rightarrow> Inl e
           | Inr sim2 \<Rightarrow> Inr (advance_clock sim2)))"

function run_loop :: "Simulation \<Rightarrow> error + Simulation" where
  "run_loop sim =
     (if Clock_is_finished (clock sim) then Inr sim
      else case loop_body sim of
             Inl e \<Rightarrow> Inl e
           | Inr sim' \<Rightarrow> run_loop sim')"
  by pat_completeness auto
termination
proof (relation "measure (\<lambda>sim. nat (num_steps (clock sim) - current_step (clock sim)))")
  show "wf (measure (\<lambda>sim. nat (num_steps (clock sim) - current_step (clock sim))))"
    by simp
next
  fix sim sim'
  assume "\<not> Clock_is_finished (clock sim)" and "loop_body sim = Inr sim'"
  then have "\<not> Clock_is_finished (clock sim)"
    and "clock sim' = Clock_advance (clock sim)"
    by (auto simp: loop_body_def update_modules_def diagnose_all_def advance_clock_def
             split: sum.splits prod.splits)
  then show "(sim', sim)
      \<in> measure (\<lambda>sim. nat (num_steps (clock sim) - current_step (clock sim)))"
    by (simp add: Clock_is_finished_def Clock_advance_def)
qed

declare run_loop.simps [simp del]

definition initialize_phase :: "Simulation \<Rightarrow> error + Simulation" where
  "initialize_phase sim =
     (case initialize_tools sim of Inl e \<Rightarrow> Inl e | Inr s1 \<Rightarrow>
     (case initialize_modules s1 of Inl e \<Rightarrow> Inl e | Inr s2 \<Rightarrow>
     (case initialize_diagnostics s2 of Inl e \<Rightarrow> Inl e | Inr s3 \<Rightarrow>
     (case exchange_publish s3 of Inl e \<Rightarrow> Inl e | Inr s4 \<Rightarrow>
        exchange_subscribe s4))))"

definition Simulation_run :: "Simulation \<Rightarrow> error + Simulation" where
  "Simulation_run sim =
     (if phase sim \<noteq> Building then Inl RunRejected
      else case initialize_phase (sim\<lparr>phase := Initializing\<rparr>) of
             Inl e \<Rightarrow> Inl e
           | Inr s1 \<Rightarrow>
               (case run_loop (s1\<lparr>phase := Running\<rparr>) of
                  Inl e \<Rightarrow> Inl e
                | Inr s2 \<Rightarrow>
                    (case finalize_all s2 of
                       Inl e \<Rightarrow> Inl e
                     | Inr s3 \<Rightarrow> Inr (s3\<lparr>phase := Finalized\<rparr>))))"

text \<open>The calls of one iteration of the step loop, for \<open>nm\<close> modules and \<open>nd\<close> diagnostics.\<close>

definition iteration_events :: "nat \<Rightarrow> nat \<Rightarrow> event list" where
  "iteration_events nm nd = map Update [0 ..< nm] @ map Diagnose [0 ..< nd] @ [Advance]"

section \<open>The notebook's registrations and configuration\<close>

text \<open>
  \<^verbatim>\<open>
  PhysicsModule.register("BlockOnSpring", BlockOnSpring)
  Diagnostic.register("BlockDiagnostic", BlockDiagnostic)
  ComputeTool.register("Leapfrog", Leapfrog)
  \<close>
  The diagnostic registry also holds the framework's own \<^verbatim>\<open>"clock"\<close> diagnostic.
\<close>

definition tutorial_registries :: registries where
  "tutorial_registries =
     \<lparr>tool_registry = [''Leapfrog'' \<mapsto> Leapfrog_factory],
      module_registry = [''BlockOnSpring'' \<mapsto> BlockOnSpring_factory],
      diagnostic_registry =
        [''clock'' \<mapsto> ClockDiagnostic_factory,
         ''BlockDiagnostic'' \<mapsto> BlockDiagnostic_factory]\<rparr>"

text \<open>The notebook's \<^verbatim>\<open>input_data\<close>, entry for entry.\<close>

definition tutorial_input_data :: pyval where
  "tutorial_input_data =
     PDict
      [(''Grid'', PDict [(''N'', PInt 2), (''x_min'', PInt 0), (''x_max'', PInt 1)]),
       (''Clock'',
          PDict [(''start_time'', PInt 0), (''end_time'', PInt 10), (''num_steps'', PInt 100)]),
       (''PhysicsModules'',
          PDict
           [(''BlockOnSpring'',
               PDict [(''mass'', PInt 1), (''spring_constant'', PInt 1),
                      (''pusher'', PStr ''Leapfrog''),
                      (''x0'', PList [PInt 0, PInt 1, PInt 0])])]),
       (''Tools'', PDict [(''Leapfrog'', PDict [])]),
       (''Diagnostics'',
          PDict
           [(''directory'', PStr ''output_leapfrog/''),
            (''output_type'', PStr ''csv''),
            (''clock'', PDict [(''filename'', PStr ''time.csv'')]),
            (''BlockDiagnostic'',
               PList
                [PDict [(''component'', PStr ''momentum''), (''filename'', PStr ''block_p.csv'')],
                 PDict [(''component'', PStr ''position''), (''filename'', PStr ''block_x.csv'')]])])]"

section \<open>Sequences of steps\<close>

text \<open>
  \<open>update_steps n\<close> is \<open>n\<close> calls of the module's \<^verbatim>\<open>update\<close>, one after the other, on
  the same store.
\<close>

fun update_steps ::
  "nat \<Rightarrow> (pyval \<Rightarrow> error + 'a) \<Rightarrow> (addr \<Rightarrow> 'a::{plus,minus,times,inverse} Leapfrog)
     \<Rightarrow> BlockOnSpring \<Rightarrow> 'a heap \<Rightarrow> error + 'a heap" where
  "update_steps 0 number objs self H = Inr H"
| "update_steps (Suc n) number objs self H =
     (case update_steps n number objs self H of
        Inl e \<Rightarrow> Inl e
      | Inr H' \<Rightarrow> BlockOnSpring_update number objs self H')"

text \<open>
  A run as one BlockDiagnostic sees it: a per-step sample on each of the stores \<open>Hs\<close> in
  turn (the store as it is at that step).
\<close>

fun diagnose_steps ::
  "BlockDiagnostic \<Rightarrow> real heap list \<Rightarrow> real list list
     \<Rightarrow> error + (BlockDiagnostic \<times> real list list)" where
  "diagnose_steps self [] printed = Inr (self, printed)"
| "diagnose_steps self (H # Hs) printed =
     (case BlockDiagnostic_diagnose self H printed of
        Inl e \<Rightarrow> Inl e
      | Inr (self', printed') \<Rightarrow> diagnose_steps self' Hs printed')"

text \<open>
  The calls of the Initializing state, for \<open>nt\<close> tools, \<open>nm\<close> modules and \<open>nd\<close>
  diagnostics: \<^verbatim>\<open>initialize()\<close> on the tools, the modules and the diagnostics, then the
  exchange phase, every module's publish step before any diagnostic's subscribe step.
\<close>

definition setup_events :: "nat \<Rightarrow> nat \<Rightarrow> nat \<Rightarrow> event list" where
  "setup_events nt nm nd =
     map InitializeTool [0 ..< nt] @ map InitializeModule [0 ..< nm]
       @ map InitializeDiagnostic [0 ..< nd]
       @ map ExchangePublish [0 ..< nm] @ map ExchangeSubscribe [0 ..< nd]"

text \<open>The simulation that the notebook's configuration builds (lemma \<open>tutorial_build\<close>).\<close>

definition tutorial_sim :: Simulation where
  "tutorial_sim =
     \<lparr>clock = \<lparr>start_time = 0, end_time = 10, num_steps = 100, clock_dt = 1 / 10,
               current_time = 0, current_step = 0\<rparr>,
      tools = [(''Leapfrog'', 0)],
      tool_objs = (\<lambda>a. Leapfrog_init Map.empty)(0 := Leapfrog_init (map_of [])),
      physics_modules =
        [\<lparr>input_data = map_of [(''mass'', PInt 1), (''spring_constant'', PInt 1),
                                 (''pusher'', PStr ''Leapfrog''),
                                 (''x0'', PList [PInt 0, PInt 1, PInt 0])],
          position = 0, momentum = 1, mass = PInt 1, spring_constant = PInt 1, push = 0\<rparr>],
      diagnostics =
        [ClockDiag (ClockDiagnostic_init
           (map_of [(''directory'', PStr ''output_leapfrog/''), (''output_type'', PStr ''csv'')]
              ++ map_of [(''filename'', PStr ''time.csv'')])),
         BlockDiag (BlockDiagnostic_init
           (map_of [(''directory'', PStr ''output_leapfrog/''), (''output_type'', PStr ''csv'')]
              ++ map_of [(''component'', PStr ''momentum''), (''filename'', PStr ''block_p.csv'')])),
         BlockDiag (BlockDiagnostic_init
           (map_of [(''directory'', PStr ''output_leapfrog/''), (''output_type'', PStr ''csv'')]
              ++ map_of [(''component'', PStr ''position''), (''filename'', PStr ''block_x.csv'')]))],
      heap = (\<lambda>a. [])(0 := [[0, 0, 0]], Suc 0 := [[0, 0, 0]]),
      free = 2,
      resources = Map.empty,
      printed_rows = [],
      trace = [],
      phase = Building\<rparr>"

section \<open>Predicates for the proofs about a run\<close>

text \<open>
  None of the following is code of the program. \<open>sink_room\<close>: the sink exists and has
  room for one row per remaining step and one more. \<open>diag_ready\<close>: a diagnostic that
  writes to such a sink and, for a BlockDiagnostic, is bound to an array of the module.
  \<open>loop_ready\<close>: a simulation with one module, numeric coefficients, an initialized
  tool, two \<open>(1, 3)\<close> arrays and ready diagnostics.
\<close>

definition sink_room :: "Clock \<Rightarrow> CSVOutputUtility option \<Rightarrow> bool" where
  "sink_room c so =
     (case so of
        None \<Rightarrow> False
      | Some s \<Rightarrow>
          int (length (buffer s)) + (num_steps c - current_step c) + 1 \<le> fst (diagnostic_size s))"

fun diag_ready :: "Clock \<Rightarrow> BlockOnSpring \<Rightarrow> diagnostic \<Rightarrow> bool" where
  "diag_ready c m (ClockDiag d) =
     (clock_output_function d = Some csv_diagnose \<and> sink_room c (clock_csv d))"
| "diag_ready c m (BlockDiag d) =
     (output_function d = Some csv_diagnose \<and>
      diag_input_data d ''output_type'' = Some (PStr ''csv'') \<and>
      (data d = Some (position m) \<or> data d = Some (momentum m)) \<and>
      sink_room c (csv d))"

definition loop_ready :: "BlockOnSpring \<Rightarrow> Simulation \<Rightarrow> bool" where
  "loop_ready m sim =
     (physics_modules sim = [m] \<and>
      \<not> isl (coefficient (mass m)) \<and>
      \<not> isl (coefficient (spring_constant m)) \<and>
      dt (tool_objs sim (push m)) \<noteq> None \<and>
      shape (heap sim (position m)) = [3] \<and> shape (heap sim (momentum m)) = [3] \<and>
      list_all (diag_ready (clock sim) m) (diagnostics sim) \<and>
      current_step (clock sim) \<le> num_steps (clock sim))"

section \<open>Array lemmas\<close>

lemma shape_arr_add: "shape a = shape b \<Longrightarrow> shape (arr_add a b) = shape a"
  unfolding shape_def arr_add_def
proof (induction a arbitrary: b)
  case Nil
  then show ?case by simp
next
  case (Cons r a)
  then obtain s b' where b: "b = s # b'" by (cases b) auto
  with Cons show ?case by simp
qed

lemma shape_arr_sub: "shape a = shape b \<Longrightarrow> shape (arr_sub a b) = shape a"
  unfolding shape_def arr_sub_def
proof (induction a arbitrary: b)
  case Nil
  then show ?case by simp
next
  case (Cons r a)
  then obtain s b' where b: "b = s # b'" by (cases b) auto
  with Cons show ?case by simp
qed

lemma shape_arr_smul: "shape (arr_smul c a) = shape a"
  by (simp add: shape_def arr_smul_def)

lemma shape_arr_sdiv: "shape (arr_sdiv a c) = shape a"
  by (simp add: shape_def arr_sdiv_def)

lemma shape_nth:
  "shape a = shape b \<Longrightarrow> length a = length b \<and> (\<forall>i < length a. length (a ! i) = length (b ! i))"
  unfolding shape_def
  by (metis length_map nth_map)

lemma arr_add_nth:
  assumes "shape a = shape b" "i < length a" "j < length (a ! i)"
  shows "arr_add a b ! i ! j = a ! i ! j + b ! i ! j"
  using assms shape_nth [OF assms(1)] by (simp add: arr_add_def)

lemma arr_sub_nth:
  assumes "shape a = shape b" "i < length a" "j < length (a ! i)"
  shows "arr_sub a b ! i ! j = a ! i ! j - b ! i ! j"
  using assms shape_nth [OF assms(1)] by (simp add: arr_sub_def)

lemma arr_smul_nth:
  "i < length a \<Longrightarrow> j < length (a ! i) \<Longrightarrow> arr_smul c a ! i ! j = c * (a ! i ! j)"
  by (simp add: arr_smul_def)

lemma arr_sdiv_nth:
  "i < length a \<Longrightarrow> j < length (a ! i) \<Longrightarrow> arr_sdiv a c ! i ! j = (a ! i ! j) / c"
  by (simp add: arr_sdiv_def)


lemma Leapfrog_push_shape:
  assumes "dt self = Some h" and "shape (H xa) = sh" and "shape (H pa) = sh"
  shows "\<exists>H'. Leapfrog_push self H xa pa m k = Inr H' \<and>
           shape (H' xa) = sh \<and> shape (H' pa) = sh"
proof -
  define X where "X = arr_add (H xa) (arr_sdiv (arr_smul h (H pa)) m)"
  define H1 where "H1 = H(xa := X)"
  define P where "P = arr_sub (H1 pa) (arr_smul (h * k) (H1 xa))"
  have shX: "shape X = sh"
    unfolding X_def using assms(2,3)
    by (simp add: shape_arr_add shape_arr_sdiv shape_arr_smul)
  have sh1: "shape (H1 pa) = sh" "shape (H1 xa) = sh"
    using shX assms(3) by (auto simp: H1_def)
  have shP: "shape P = sh"
    unfolding P_def using sh1 by (simp add: shape_arr_sub shape_arr_smul)
  have run: "Leapfrog_push self H xa pa m k = Inr (H1(pa := P))"
    using assms by (simp add: Leapfrog_push_def Let_def H1_def X_def P_def)
  show ?thesis
    using run shX shP sh1 by (intro exI [of _ "H1(pa := P)"]) (auto simp: H1_def)
qed

section \<open>The push step\<close>

text \<open>
  Claim C1. For every position array, momentum array, mass, spring constant and step
  (in any arithmetic), \<^verbatim>\<open>push\<close> first replaces every entry \<open>x\<close> of the position by
  \<open>x + dt * p / m\<close> and then replaces every entry \<open>p\<close> of the momentum by
  \<open>p - dt * k * x'\<close>, where \<open>x'\<close> is the entry of the position just written: the position
  is updated before the momentum, and the momentum update reads the updated position.
  No other array changes.
\<close>

theorem Leapfrog_push_position_then_momentum:
  fixes self :: "'a::{plus,minus,times,inverse} Leapfrog"
  assumes "dt self = Some h"
    and "shape (H xa) = shape (H pa)"
    and "xa \<noteq> pa"
  shows "\<exists>H'. Leapfrog_push self H xa pa m k = Inr H' \<and>
           shape (H' xa) = shape (H xa) \<and> shape (H' pa) = shape (H pa) \<and>
           (\<forall>i < length (H xa). \<forall>j < length (H xa ! i).
              H' xa ! i ! j = H xa ! i ! j + h * (H pa ! i ! j) / m \<and>
              H' pa ! i ! j = H pa ! i ! j - h * k * (H' xa ! i ! j)) \<and>
           (\<forall>a. a \<noteq> xa \<and> a \<noteq> pa \<longrightarrow> H' a = H a)"
proof -
  define X where "X = arr_add (H xa) (arr_sdiv (arr_smul h (H pa)) m)"
  define P where "P = arr_sub (H pa) (arr_smul (h * k) X)"
  define H' where "H' = H(xa := X, pa := P)"
  have sh1: "shape (arr_sdiv (arr_smul h (H pa)) m) = shape (H xa)"
    using assms(2) by (simp add: shape_arr_sdiv shape_arr_smul)
  have shX: "shape X = shape (H xa)"
    unfolding X_def using sh1 by (simp add: shape_arr_add)
  have shP: "shape P = shape (H pa)"
    unfolding P_def using shX assms(2) by (simp add: shape_arr_sub shape_arr_smul)
  have run: "Leapfrog_push self H xa pa m k = Inr H'"
    using assms by (simp add: Leapfrog_push_def Let_def H'_def X_def P_def)
  have Hx: "H' xa = X" and Hp: "H' pa = P"
    using assms(3) by (simp_all add: H'_def)
  have entries: "H' xa ! i ! j = H xa ! i ! j + h * (H pa ! i ! j) / m \<and>
                 H' pa ! i ! j = H pa ! i ! j - h * k * (H' xa ! i ! j)"
    if i: "i < length (H xa)" and j: "j < length (H xa ! i)" for i j
  proof -
    from shape_nth [OF assms(2)] i j
    have ip: "i < length (H pa)" and jp: "j < length (H pa ! i)" by auto
    from shape_nth [OF shX] i j
    have iX: "i < length X" and jX: "j < length (X ! i)" by auto
    have "arr_smul h (H pa) ! i ! j = h * (H pa ! i ! j)"
      using ip jp by (rule arr_smul_nth)
    moreover have "i < length (arr_smul h (H pa))" "j < length (arr_smul h (H pa) ! i)"
      using ip jp by (simp_all add: arr_smul_def)
    ultimately have "arr_sdiv (arr_smul h (H pa)) m ! i ! j = h * (H pa ! i ! j) / m"
      by (simp add: arr_sdiv_nth)
    then have "X ! i ! j = H xa ! i ! j + h * (H pa ! i ! j) / m"
      unfolding X_def using sh1 i j by (simp add: arr_add_nth)
    moreover have "P ! i ! j = H pa ! i ! j - h * k * (X ! i ! j)"
      unfolding P_def using shX assms(2) ip jp iX jX
      by (simp add: arr_sub_nth arr_smul_nth shape_arr_smul)
    ultimately show ?thesis by (simp add: Hx Hp)
  qed
  have frame: "\<forall>a. a \<noteq> xa \<and> a \<noteq> pa \<longrightarrow> H' a = H a"
    by (simp add: H'_def)
  from run shX shP entries frame show ?thesis
    by (auto simp: Hx Hp)
qed

theorem Leapfrog_push_position_then_momentum_witness:
  "\<exists>H'. Leapfrog_push \<lparr>tool_input_data = Map.empty, dt = Some (1::real)\<rparr>
            ((\<lambda>a. [])(0 := [[1]], Suc 0 := [[1]])) 0 (Suc 0) 1 1 = Inr H' \<and>
         H' 0 = [[2]] \<and> H' (Suc 0) = [[-1]]"
proof -
  let ?H = "(\<lambda>a. [])(0 := [[1::real]], Suc 0 := [[1]])"
  from Leapfrog_push_position_then_momentum
         [of "\<lparr>tool_input_data = Map.empty, dt = Some (1::real)\<rparr>" 1 ?H 0 "Suc 0" 1 1]
  obtain H' where r: "Leapfrog_push \<lparr>tool_input_data = Map.empty, dt = Some (1::real)\<rparr>
            ?H 0 (Suc 0) 1 1 = Inr H'"
    by (auto simp: shape_def)
  then have "H' 0 = [[2]] \<and> H' (Suc 0) = [[-1]]"
    by (auto simp: Leapfrog_push_def shape_def Let_def arr_add_def arr_sub_def
        arr_smul_def arr_sdiv_def)
  with r show ?thesis by blast
qed

section \<open>The clock\<close>

lemma Clock_advance_funpow:
  "(Clock_advance ^^ n) c =
     c\<lparr>current_step := current_step c + int n,
       current_time := current_time c + real n * clock_dt c\<rparr>"
  by (induction n) (simp_all add: Clock_advance_def algebra_simps)

text \<open>
  Claim C3. For every valid Clock configuration (\<open>num_steps\<close> a positive integer,
  \<open>end_time > start_time\<close>) the Clock is constructed with
  \<open>dt = (end_time - start_time) / num_steps\<close>; each \<^verbatim>\<open>advance()\<close> increments
  \<open>current_step\<close> by exactly 1 and \<open>current_time\<close> by exactly \<open>dt\<close>; \<^verbatim>\<open>is_finished()\<close>
  is true iff \<open>current_step \<ge> num_steps\<close>; so after \<open>i\<close> calls of \<^verbatim>\<open>advance()\<close> the
  clock is finished iff \<open>i \<ge> num_steps\<close>: \<open>num_steps\<close> calls finish it and no fewer do.
\<close>

theorem Clock_advance_counts:
  assumes "input_data' ''num_steps'' = Some (PInt n)"
    and "input_data' ''start_time'' = Some s" and "py_number s = Some t0"
    and "input_data' ''end_time'' = Some e" and "py_number e = Some t1"
    and "0 < n" and "t0 < t1"
  shows "\<exists>c. Clock_init input_data' = Inr c \<and>
           clock_dt c = (t1 - t0) / of_int n \<and>
           current_step c = 0 \<and> current_time c = t0 \<and>
           (\<forall>i. current_step ((Clock_advance ^^ Suc i) c)
                   = current_step ((Clock_advance ^^ i) c) + 1 \<and>
                current_time ((Clock_advance ^^ Suc i) c)
                   = current_time ((Clock_advance ^^ i) c) + clock_dt c \<and>
                (Clock_is_finished ((Clock_advance ^^ i) c)
                   \<longleftrightarrow> n \<le> current_step ((Clock_advance ^^ i) c)) \<and>
                (Clock_is_finished ((Clock_advance ^^ i) c) \<longleftrightarrow> nat n \<le> i))"
proof -
  define c where "c = \<lparr>start_time = t0, end_time = t1, num_steps = n,
      clock_dt = (t1 - t0) / of_int n, current_time = t0, current_step = 0\<rparr>"
  have init: "Clock_init input_data' = Inr c"
    using assms by (simp add: Clock_init_def c_def)
  have dt_same: "clock_dt ((Clock_advance ^^ i) c) = clock_dt c" for i
    by (simp add: Clock_advance_funpow)
  have step: "current_step ((Clock_advance ^^ Suc i) c)
                = current_step ((Clock_advance ^^ i) c) + 1 \<and>
              current_time ((Clock_advance ^^ Suc i) c)
                = current_time ((Clock_advance ^^ i) c) + clock_dt c" for i
    using dt_same [of i] by (simp add: Clock_advance_def)
  have fin: "(Clock_is_finished ((Clock_advance ^^ i) c)
                \<longleftrightarrow> n \<le> current_step ((Clock_advance ^^ i) c)) \<and>
             (Clock_is_finished ((Clock_advance ^^ i) c) \<longleftrightarrow> nat n \<le> i)" for i
    using assms(6) by (auto simp: Clock_advance_funpow Clock_is_finished_def c_def)
  have "clock_dt c = (t1 - t0) / of_int n" "current_step c = 0" "current_time c = t0"
    by (simp_all add: c_def)
  with init step fin show ?thesis
    by blast
qed

theorem Clock_advance_counts_witness:
  "\<exists>c. Clock_init [''start_time'' \<mapsto> PInt 0, ''end_time'' \<mapsto> PInt 10,
                    ''num_steps'' \<mapsto> PInt 100] = Inr c \<and>
       clock_dt c = 1 / 10 \<and>
       Clock_is_finished ((Clock_advance ^^ 100) c) \<and>
       \<not> Clock_is_finished ((Clock_advance ^^ 99) c)"
proof -
  let ?d = "[''start_time'' \<mapsto> PInt 0, ''end_time'' \<mapsto> PInt 10, ''num_steps'' \<mapsto> PInt 100]"
  from Clock_advance_counts [of ?d 100 "PInt 0" 0 "PInt 10" 10]
  obtain c where c: "Clock_init ?d = Inr c" "clock_dt c = (10 - 0) / of_int 100"
    and fin: "\<And>i. Clock_is_finished ((Clock_advance ^^ i) c) \<longleftrightarrow> nat 100 \<le> i"
    by auto
  have "Clock_is_finished ((Clock_advance ^^ 100) c)"
    and "\<not> Clock_is_finished ((Clock_advance ^^ 99) c)"
    unfolding fin by simp_all
  with c show ?thesis by (intro exI [of _ c]) simp
qed

section \<open>The registries\<close>

text \<open>
  Claim C7. In a registry of any family, \<^verbatim>\<open>register(name, factory)\<close> fails with
  DuplicateNameError whenever the name is present (in particular a second registration
  of a name just registered fails), and \<^verbatim>\<open>create(name, owner, config)\<close> fails with
  UnknownTypeError whenever the name is absent; otherwise \<^verbatim>\<open>create\<close> invokes the stored
  factory on the owner and the configuration and returns what it returns.
\<close>

theorem Registry_contract:
  fixes reg :: "('o, 'c, 'i) registry"
  shows "(reg name \<noteq> None \<longrightarrow> register name factory reg = Inl DuplicateNameError) \<and>
         (reg name = None \<longrightarrow>
            register name factory reg = Inr (reg(name \<mapsto> factory)) \<and>
            register name factory' (reg(name \<mapsto> factory)) = Inl DuplicateNameError \<and>
            create name owner config (reg(name \<mapsto> factory)) = factory owner config \<and>
            create name owner config reg = Inl UnknownTypeError) \<and>
         (\<forall>g. reg name = Some g \<longrightarrow> create name owner config reg = g owner config)"
  by (auto simp: register_def create_def)

theorem Registry_contract_witness:
  "register ''Leapfrog'' Leapfrog_factory (Map.empty :: (Simulation, pydict, real Leapfrog \<times> Simulation) registry)
     = Inr (tool_registry tutorial_registries) \<and>
   register ''Leapfrog'' Leapfrog_factory (tool_registry tutorial_registries)
     = Inl DuplicateNameError \<and>
   (\<forall>owner. create ''Leapfrog'' owner Map.empty (tool_registry tutorial_registries)
     = Inr (Leapfrog_init Map.empty, owner)) \<and>
   (\<forall>owner. create ''Euler'' owner Map.empty (tool_registry tutorial_registries)
     = Inl UnknownTypeError)"
proof (intro conjI allI)
  fix owner :: Simulation
  have reg: "tool_registry tutorial_registries = [''Leapfrog'' \<mapsto> Leapfrog_factory]"
    by (simp add: tutorial_registries_def)
  have "(Map.empty :: (Simulation, pydict, real Leapfrog \<times> Simulation) registry) ''Leapfrog'' = None"
    by simp
  with Registry_contract [of Map.empty "''Leapfrog''" Leapfrog_factory Leapfrog_factory
      owner Map.empty]
  have a: "register ''Leapfrog'' Leapfrog_factory
             (Map.empty :: (Simulation, pydict, real Leapfrog \<times> Simulation) registry)
             = Inr [''Leapfrog'' \<mapsto> Leapfrog_factory]"
    and b: "register ''Leapfrog'' Leapfrog_factory [''Leapfrog'' \<mapsto> Leapfrog_factory]
             = Inl DuplicateNameError"
    and c: "create ''Leapfrog'' owner Map.empty [''Leapfrog'' \<mapsto> Leapfrog_factory]
             = Leapfrog_factory owner Map.empty"
    by blast+
  have "[''Leapfrog'' \<mapsto> Leapfrog_factory] ''Euler'' = None"
    by simp
  with Registry_contract [of "[''Leapfrog'' \<mapsto> Leapfrog_factory]" "''Euler''"
      Leapfrog_factory Leapfrog_factory owner Map.empty]
  have d: "create ''Euler'' owner Map.empty [''Leapfrog'' \<mapsto> Leapfrog_factory]
             = Inl UnknownTypeError"
    by blast
  from a show "register ''Leapfrog'' Leapfrog_factory
        (Map.empty :: (Simulation, pydict, real Leapfrog \<times> Simulation) registry)
        = Inr (tool_registry tutorial_registries)"
    by (simp add: reg)
  from b show "register ''Leapfrog'' Leapfrog_factory (tool_registry tutorial_registries)
        = Inl DuplicateNameError"
    by (simp add: reg)
  from c show "create ''Leapfrog'' owner Map.empty (tool_registry tutorial_registries)
        = Inr (Leapfrog_init Map.empty, owner)"
    by (simp add: reg Leapfrog_factory_def)
  from d show "create ''Euler'' owner Map.empty (tool_registry tutorial_registries)
        = Inl UnknownTypeError"
    by (simp add: reg)
qed

section \<open>The resource directory\<close>

lemma publish_resource_Cons:
  "publish_resource ((n, b) # es) d =
     (if d n = None then publish_resource es (d(n \<mapsto> b)) else Inl DuplicateResourceError)"
  by (simp add: publish_def split: option.splits)

lemma map_add_upd_left:
  assumes "n \<notin> fst ` set es"
  shows "d(n \<mapsto> b) ++ map_of es = d ++ map_of ((n, b) # es)"
proof
  fix m
  show "(d(n \<mapsto> b) ++ map_of es) m = (d ++ map_of ((n, b) # es)) m"
  proof (cases "m = n")
    case True
    with assms have "map_of es m = None"
      by (simp add: map_of_eq_None_iff)
    with True show ?thesis by (simp add: map_add_def)
  next
    case False
    then show ?thesis by (simp add: map_add_def split: option.splits)
  qed
qed

lemma publish_resource_Inr:
  "publish_resource es d = Inr d' \<longleftrightarrow>
     distinct (map fst es) \<and> (\<forall>n \<in> fst ` set es. d n = None) \<and> d' = d ++ map_of es"
proof (induction es arbitrary: d)
  case Nil
  show ?case by auto
next
  case (Cons a es)
  obtain n b where a: "a = (n, b)" by (cases a)
  show ?case
  proof (cases "d n")
    case None
    have step: "publish_resource (a # es) d = publish_resource es (d(n \<mapsto> b))"
      using None by (simp add: a publish_resource_Cons del: publish_resource.simps)
    have keys: "(\<forall>m \<in> fst ` set es. (d(n \<mapsto> b)) m = None)
                  \<longleftrightarrow> n \<notin> fst ` set es \<and> (\<forall>m \<in> fst ` set es. d m = None)"
      by auto
    have "publish_resource (a # es) d = Inr d' \<longleftrightarrow>
            distinct (map fst es) \<and> n \<notin> fst ` set es \<and> (\<forall>m \<in> fst ` set es. d m = None)
            \<and> d' = d(n \<mapsto> b) ++ map_of es"
      unfolding step Cons.IH keys by (simp add: conj_assoc)
    also have "\<dots> \<longleftrightarrow> distinct (map fst es) \<and> n \<notin> fst ` set es \<and>
            (\<forall>m \<in> fst ` set es. d m = None) \<and> d' = d ++ map_of ((n, b) # es)"
      using map_add_upd_left [of n es d b] by metis
    also have "\<dots> \<longleftrightarrow> distinct (map fst (a # es)) \<and> (\<forall>m \<in> fst ` set (a # es). d m = None)
            \<and> d' = d ++ map_of (a # es)"
      using None unfolding a by auto
    finally show ?thesis .
  next
    case (Some b')
    have "publish_resource (a # es) d = Inl DuplicateResourceError"
      using Some by (simp add: a publish_resource_Cons del: publish_resource.simps)
    then have l: "(publish_resource (a # es) d = Inr d') = False"
      by (simp del: publish_resource.simps)
    have r: "(\<forall>m \<in> fst ` set (a # es). d m = None) = False"
      using Some by (auto simp: a)
    show ?thesis
      by (simp only: l r simp_thms)
  qed
qed

lemma publish_resource_Inl:
  "publish_resource es d = Inl e \<Longrightarrow> e = DuplicateResourceError"
proof (induction es arbitrary: d)
  case Nil
  then show ?case by simp
next
  case (Cons a es)
  obtain n b where a: "a = (n, b)" by (cases a)
  from Cons.prems show ?case
    unfolding a publish_resource_Cons
    by (auto dest: Cons.IH split: if_splits)
qed

text \<open>
  Claim C6. Starting from the empty directory and publishing the entries \<open>es\<close> in
  order: if a name occurs twice, the publication fails with DuplicateResourceError;
  otherwise it succeeds, and in the resulting directory subscribing to a published name
  returns the buffer handle published under it, publishing under that name again fails
  with DuplicateResourceError, and subscribing to a name that was never published fails
  with UnknownResourceError.
\<close>

theorem Resource_directory_contract:
  "(\<not> distinct (map fst es) \<longrightarrow>
      publish_resource es Map.empty = Inl DuplicateResourceError) \<and>
   (distinct (map fst es) \<longrightarrow>
      (\<exists>dir. publish_resource es Map.empty = Inr dir \<and>
         (\<forall>(name, buffer) \<in> set es.
            subscribe name dir = Inr buffer \<and>
            publish name buffer' dir = Inl DuplicateResourceError) \<and>
         (\<forall>name. name \<notin> fst ` set es \<longrightarrow>
            subscribe name dir = Inl UnknownResourceError)))"
proof (intro conjI impI)
  assume "\<not> distinct (map fst es)"
  then have "\<And>d'. publish_resource es Map.empty \<noteq> Inr d'"
    by (simp add: publish_resource_Inr)
  then obtain e where "publish_resource es Map.empty = Inl e"
    by (cases "publish_resource es Map.empty") auto
  with publish_resource_Inl show "publish_resource es Map.empty = Inl DuplicateResourceError"
    by blast
next
  assume d: "distinct (map fst es)"
  let ?dir = "map_of es"
  have run: "publish_resource es Map.empty = Inr ?dir"
    using d by (simp add: publish_resource_Inr)
  have look: "?dir name = Some buffer" if "(name, buffer) \<in> set es" for name buffer
    using d that by simp
  have none: "?dir name = None" if "name \<notin> fst ` set es" for name
    using that by (simp add: map_of_eq_None_iff)
  show "\<exists>dir. publish_resource es Map.empty = Inr dir \<and>
         (\<forall>(name, buffer) \<in> set es.
            subscribe name dir = Inr buffer \<and>
            publish name buffer' dir = Inl DuplicateResourceError) \<and>
         (\<forall>name. name \<notin> fst ` set es \<longrightarrow>
            subscribe name dir = Inl UnknownResourceError)"
    using run look none
    by (intro exI [of _ ?dir]) (auto simp: subscribe_def publish_def)
qed

theorem Resource_directory_contract_witness:
  "publish_resource [(''Block:position'', 0), (''Block:position'', 1)] Map.empty
     = Inl DuplicateResourceError \<and>
   (\<exists>dir. publish_resource [(''Block:position'', 0), (''Block:momentum'', 1)] Map.empty = Inr dir \<and>
      subscribe ''Block:momentum'' dir = Inr 1 \<and>
      subscribe ''Block:velocity'' dir = Inl UnknownResourceError)"
proof -
  let ?dup = "[(''Block:position'', 0::nat), (''Block:position'', 1)]"
  let ?es = "[(''Block:position'', 0::nat), (''Block:momentum'', 1)]"
  have "\<not> distinct (map fst ?dup)" by simp
  with Resource_directory_contract [of ?dup 0]
  have a: "publish_resource ?dup Map.empty = Inl DuplicateResourceError"
    by blast
  have "distinct (map fst ?es)" by simp
  with Resource_directory_contract [of ?es 0]
  obtain dir where r: "publish_resource ?es Map.empty = Inr dir"
    and s: "\<forall>(name, buffer) \<in> set ?es.
              subscribe name dir = Inr buffer \<and>
              publish name 0 dir = Inl DuplicateResourceError"
    and u: "\<forall>name. name \<notin> fst ` set ?es \<longrightarrow> subscribe name dir = Inl UnknownResourceError"
    by blast
  from s have m: "subscribe ''Block:momentum'' dir = Inr 1" by simp
  from u have v: "subscribe ''Block:velocity'' dir = Inl UnknownResourceError" by simp
  from a r m v show ?thesis by blast
qed


section \<open>The component of a BlockDiagnostic\<close>

text \<open>
  Claim C10. A BlockDiagnostic constructed from a configuration without the key
  \<^verbatim>\<open>"component"\<close> has the integer 1 as its component, not a string, and its resource
  inspection, which concatenates \<^verbatim>\<open>"Block:"\<close> with the component, fails with a
  TypeError on every resource, so that its data is never bound. The inspection of a
  freshly constructed diagnostic goes through exactly when the key is present and a
  string.
\<close>

theorem BlockDiagnostic_component_default:
  "(input_data' ''component'' = None \<longrightarrow>
      component (BlockDiagnostic_init input_data') = PInt 1 \<and>
      data (BlockDiagnostic_init input_data') = None \<and>
      (\<forall>resource. BlockDiagnostic_inspect_resource (BlockDiagnostic_init input_data') resource
                    = Inl TypeError)) \<and>
   ((\<exists>d. BlockDiagnostic_inspect_resource (BlockDiagnostic_init input_data') resource = Inr d)
      \<longleftrightarrow> (\<exists>s. input_data' ''component'' = Some (PStr s)))"
  by (auto simp: BlockDiagnostic_init_def BlockDiagnostic_inspect_resource_def resource_key_def
        py_get_def split: option.splits pyval.splits)

theorem BlockDiagnostic_component_default_witness:
  "component (BlockDiagnostic_init [''filename'' \<mapsto> PStr ''block_p.csv'']) = PInt 1 \<and>
   BlockDiagnostic_inspect_resource (BlockDiagnostic_init [''filename'' \<mapsto> PStr ''block_p.csv''])
      [''Block:position'' \<mapsto> 0, ''Block:momentum'' \<mapsto> 1] = Inl TypeError \<and>
   (\<exists>d. BlockDiagnostic_inspect_resource
          (BlockDiagnostic_init [''component'' \<mapsto> PStr ''momentum''])
          [''Block:position'' \<mapsto> 0, ''Block:momentum'' \<mapsto> 1] = Inr d)"
proof -
  have "[''filename'' \<mapsto> PStr ''block_p.csv''] ''component'' = None"
    by simp
  with BlockDiagnostic_component_default [of "[''filename'' \<mapsto> PStr ''block_p.csv'']"]
  have a: "component (BlockDiagnostic_init [''filename'' \<mapsto> PStr ''block_p.csv'']) = PInt 1"
    and b: "\<And>resource. BlockDiagnostic_inspect_resource
              (BlockDiagnostic_init [''filename'' \<mapsto> PStr ''block_p.csv'']) resource
              = Inl TypeError"
    by blast+
  have "\<exists>s. [''component'' \<mapsto> PStr ''momentum''] ''component'' = Some (PStr s)"
    by simp
  with BlockDiagnostic_component_default [of "[''component'' \<mapsto> PStr ''momentum'']"
      "[''Block:position'' \<mapsto> 0, ''Block:momentum'' \<mapsto> 1]"]
  have c: "\<exists>d. BlockDiagnostic_inspect_resource
          (BlockDiagnostic_init [''component'' \<mapsto> PStr ''momentum''])
          [''Block:position'' \<mapsto> 0, ''Block:momentum'' \<mapsto> 1] = Inr d"
    by blast
  from a b c show ?thesis by blast
qed

section \<open>Samples of a BlockDiagnostic\<close>

lemma BlockDiagnostic_read_csv_update:
  "BlockDiagnostic_read (b\<lparr>csv := x\<rparr>) H = BlockDiagnostic_read b H"
  by (simp add: BlockDiagnostic_read_def)

lemma BlockDiagnostic_diagnose_print:
  assumes "output_function b = Some print_diagnose" and "\<not> isl (BlockDiagnostic_read b H)"
  shows "BlockDiagnostic_diagnose b H out = Inr (b, out @ [projr (BlockDiagnostic_read b H)])"
  using assms by (cases "BlockDiagnostic_read b H") (simp_all add: BlockDiagnostic_diagnose_def)

lemma BlockDiagnostic_diagnose_csv:
  assumes "output_function b = Some csv_diagnose" and "csv b = Some s"
    and "\<not> isl (BlockDiagnostic_read b H)"
    and "int (length (buffer s)) < fst (diagnostic_size s)"
  shows "BlockDiagnostic_diagnose b H out
           = Inr (b\<lparr>csv := Some (s\<lparr>buffer := buffer s @ [projr (BlockDiagnostic_read b H)]\<rparr>)\<rparr>,
                  out)"
  using assms
  by (cases "BlockDiagnostic_read b H")
     (simp_all add: BlockDiagnostic_diagnose_def CSV_append_def)

lemma diagnose_steps_print:
  assumes "output_function b = Some print_diagnose"
    and "\<forall>H \<in> set Hs. \<not> isl (BlockDiagnostic_read b H)"
  shows "diagnose_steps b Hs out
           = Inr (b, out @ map (\<lambda>H. projr (BlockDiagnostic_read b H)) Hs)"
  using assms
proof (induction Hs arbitrary: out)
  case Nil
  then show ?case by simp
next
  case (Cons H Hs)
  from Cons.prems have rd: "\<not> isl (BlockDiagnostic_read b H)"
    by simp
  have one: "BlockDiagnostic_diagnose b H out
      = Inr (b, out @ [projr (BlockDiagnostic_read b H)])"
    by (rule BlockDiagnostic_diagnose_print [OF Cons.prems(1) rd])
  have rest: "diagnose_steps b Hs (out @ [projr (BlockDiagnostic_read b H)])
      = Inr (b, (out @ [projr (BlockDiagnostic_read b H)])
               @ map (\<lambda>H. projr (BlockDiagnostic_read b H)) Hs)"
    using Cons.prems by (intro Cons.IH) auto
  show ?case
    by (simp add: one rest)
qed

lemma diagnose_steps_csv:
  assumes "output_function b = Some csv_diagnose" and "csv b = Some s"
    and "\<forall>H \<in> set Hs. \<not> isl (BlockDiagnostic_read b H)"
    and "int (length (buffer s)) + int (length Hs) \<le> fst (diagnostic_size s)"
  shows "diagnose_steps b Hs out
           = Inr (b\<lparr>csv := Some (s\<lparr>buffer := buffer s
                     @ map (\<lambda>H. projr (BlockDiagnostic_read b H)) Hs\<rparr>)\<rparr>, out)"
  using assms
proof (induction Hs arbitrary: b s)
  case Nil
  then show ?case by simp
next
  case (Cons H Hs)
  from Cons.prems have rd: "\<not> isl (BlockDiagnostic_read b H)"
    by simp
  from Cons.prems have room: "int (length (buffer s)) < fst (diagnostic_size s)"
    by simp
  let ?s = "s\<lparr>buffer := buffer s @ [projr (BlockDiagnostic_read b H)]\<rparr>"
  let ?b = "b\<lparr>csv := Some ?s\<rparr>"
  have one: "BlockDiagnostic_diagnose b H out = Inr (?b, out)"
    by (rule BlockDiagnostic_diagnose_csv [OF Cons.prems(1) Cons.prems(2) rd room])
  have rest: "diagnose_steps ?b Hs out
      = Inr (?b\<lparr>csv := Some (?s\<lparr>buffer := buffer ?s
                     @ map (\<lambda>H. projr (BlockDiagnostic_read ?b H)) Hs\<rparr>)\<rparr>, out)"
    using Cons.prems by (intro Cons.IH) (auto simp: BlockDiagnostic_read_csv_update)
  show ?case
    by (simp add: one rest BlockDiagnostic_read_csv_update)
qed

lemma BlockDiagnostic_initialize_cases:
  assumes "BlockDiagnostic_initialize c0 b = Inr b1"
  shows "(diag_input_data b ''output_type'' = Some (PStr ''stdout'') \<and>
          b1 = b\<lparr>output_function := Some print_diagnose\<rparr>) \<or>
         (diag_input_data b ''output_type'' = Some (PStr ''csv'') \<and>
          (\<exists>path. b1 = b\<lparr>output_function := Some csv_diagnose,
                           csv := Some (CSVOutputUtility_init path (num_steps c0 + 1, 3))\<rparr>))"
  using assms
  by (auto simp: BlockDiagnostic_initialize_def py_item_def
           split: option.splits pyval.splits if_splits sum.splits)

lemma BlockDiagnostic_inspect_resource_fields:
  assumes "BlockDiagnostic_inspect_resource b dir = Inr b'"
  shows "output_function b' = output_function b \<and> csv b' = csv b \<and>
         diag_input_data b' = diag_input_data b"
  using assms
  by (auto simp: BlockDiagnostic_inspect_resource_def split: sum.splits option.splits)

lemma BlockDiagnostic_finalize_print:
  assumes "output_function b = Some print_diagnose"
    and "diag_input_data b ''output_type'' = Some (PStr ''stdout'')"
    and "\<not> isl (BlockDiagnostic_read b H)"
  shows "BlockDiagnostic_finalize b H out = Inr (b, out @ [projr (BlockDiagnostic_read b H)])"
  using assms(2)
  by (simp add: BlockDiagnostic_finalize_def py_item_def
        BlockDiagnostic_diagnose_print [OF assms(1) assms(3)])

lemma BlockDiagnostic_finalize_csv:
  assumes "output_function b = Some csv_diagnose" and "csv b = Some s"
    and "\<not> isl (BlockDiagnostic_read b H)"
    and "int (length (buffer s)) < fst (diagnostic_size s)"
    and "diag_input_data b ''output_type'' = Some (PStr ''csv'')"
  shows "BlockDiagnostic_finalize b H out
           = Inr (b\<lparr>csv := Some (CSV_finalize
                      (s\<lparr>buffer := buffer s @ [projr (BlockDiagnostic_read b H)]\<rparr>))\<rparr>, out)"
  using assms(5)
  by (simp add: BlockDiagnostic_finalize_def py_item_def
        BlockDiagnostic_diagnose_csv [OF assms(1) assms(2) assms(3) assms(4)])

text \<open>
  Claim C8. The life of a BlockDiagnostic, the Diagnostic of the notebook: constructed
  from its configuration, initialized, bound to its array by the exchange, sampled once
  per step on the stores \<open>Hs\<close>, and finalized on the store \<open>Hf\<close> reached after the final
  step. Whenever every read finds a row (and, for a CSV sink, there are at most
  \<open>num_steps\<close> steps), the per-step samples and \<^verbatim>\<open>finalize()\<close> go through, and
  \<^verbatim>\<open>finalize()\<close> performs exactly one extra sample, of the final store, before it closes
  the sink. With \<^verbatim>\<open>output_type\<close> \<^verbatim>\<open>"stdout"\<close> the rows printed are the per-step rows
  followed by that one row, and there is no sink to close. With \<^verbatim>\<open>output_type\<close>
  \<^verbatim>\<open>"csv"\<close> the sink holds the per-step rows before \<^verbatim>\<open>finalize()\<close>, with nothing
  in the file and the sink open; after it the rows appended are the per-step rows followed
  by the row of the final store, the file holds exactly these rows (the sample was appended
  before the flush), and the sink is closed. Either way the number of rows written is the
  number of per-step samples plus one.
\<close>

theorem BlockDiagnostic_finalize_one_extra_sample:
  assumes init: "BlockDiagnostic_initialize c0 (BlockDiagnostic_init cfg) = Inr b1"
    and sub: "BlockDiagnostic_inspect_resource b1 dir = Inr b"
    and reads: "\<forall>H \<in> set (Hs @ [Hf]). \<not> isl (BlockDiagnostic_read b H)"
    and room: "cfg ''output_type'' = Some (PStr ''csv'') \<longrightarrow> int (length Hs) \<le> num_steps c0"
  shows "\<exists>b' out' b'' out''.
           diagnose_steps b Hs out = Inr (b', out') \<and>
           BlockDiagnostic_finalize b' Hf out' = Inr (b'', out'') \<and>
           (cfg ''output_type'' = Some (PStr ''stdout'') \<and>
              out' = out @ map (\<lambda>H. projr (BlockDiagnostic_read b H)) Hs \<and>
              out'' = out' @ [projr (BlockDiagnostic_read b Hf)] \<and>
              length out'' = length out + (length Hs + 1) \<and>
              csv b'' = None
            \<or>
            cfg ''output_type'' = Some (PStr ''csv'') \<and>
              out'' = out \<and>
              (\<exists>s' s''.
                 csv b' = Some s' \<and>
                 buffer s' = map (\<lambda>H. projr (BlockDiagnostic_read b H)) Hs \<and>
                 written s' = None \<and> \<not> finalized s' \<and>
                 csv b'' = Some s'' \<and>
                 buffer s'' = buffer s' @ [projr (BlockDiagnostic_read b Hf)] \<and>
                 written s'' = Some (buffer s' @ [projr (BlockDiagnostic_read b Hf)]) \<and>
                 finalized s'' \<and>
                 length (buffer s'') = length Hs + 1))"
proof -
  from reads have rs: "\<forall>H \<in> set Hs. \<not> isl (BlockDiagnostic_read b H)"
    and rf: "\<not> isl (BlockDiagnostic_read b Hf)"
    by auto
  note keep = BlockDiagnostic_inspect_resource_fields [OF sub]
  from BlockDiagnostic_initialize_cases [OF init]
  consider (print) "cfg ''output_type'' = Some (PStr ''stdout'')"
      "b1 = (BlockDiagnostic_init cfg)\<lparr>output_function := Some print_diagnose\<rparr>"
    | (csv) path where "cfg ''output_type'' = Some (PStr ''csv'')"
      "b1 = (BlockDiagnostic_init cfg)\<lparr>output_function := Some csv_diagnose,
              csv := Some (CSVOutputUtility_init path (num_steps c0 + 1, 3))\<rparr>"
    by (auto simp: BlockDiagnostic_init_def)
  then show ?thesis
  proof cases
    case print
    from keep print have f: "output_function b = Some print_diagnose" "csv b = None"
        "diag_input_data b ''output_type'' = Some (PStr ''stdout'')"
      by (simp_all add: BlockDiagnostic_init_def)
    let ?rows = "map (\<lambda>H. projr (BlockDiagnostic_read b H)) Hs"
    have st: "diagnose_steps b Hs out = Inr (b, out @ ?rows)"
      by (rule diagnose_steps_print [OF f(1) rs])
    have fin: "BlockDiagnostic_finalize b Hf (out @ ?rows)
        = Inr (b, (out @ ?rows) @ [projr (BlockDiagnostic_read b Hf)])"
      by (rule BlockDiagnostic_finalize_print [OF f(1) f(3) rf])
    show ?thesis
      using st fin print(1) f(2)
      by (intro exI [of _ b] exI [of _ "out @ ?rows"]
            exI [of _ "(out @ ?rows) @ [projr (BlockDiagnostic_read b Hf)]"]) simp
  next
    case csv
    let ?s = "CSVOutputUtility_init path (num_steps c0 + 1, 3)"
    from keep csv have f: "output_function b = Some csv_diagnose" "csv b = Some ?s"
        "diag_input_data b ''output_type'' = Some (PStr ''csv'')"
      by (simp_all add: BlockDiagnostic_init_def)
    from room csv(1) have le: "int (length Hs) \<le> num_steps c0" by simp
    let ?rows = "map (\<lambda>H. projr (BlockDiagnostic_read b H)) Hs"
    let ?s' = "?s\<lparr>buffer := buffer ?s @ ?rows\<rparr>"
    let ?b' = "b\<lparr>csv := Some ?s'\<rparr>"
    have r1: "int (length (buffer ?s)) + int (length Hs) \<le> fst (diagnostic_size ?s)"
      using le by (simp add: CSVOutputUtility_init_def)
    have st: "diagnose_steps b Hs out = Inr (?b', out)"
      by (rule diagnose_steps_csv [OF f(1) f(2) rs r1])
    have f': "output_function ?b' = Some csv_diagnose" "csv ?b' = Some ?s'"
        "diag_input_data ?b' ''output_type'' = Some (PStr ''csv'')"
      using f by simp_all
    have rf': "\<not> isl (BlockDiagnostic_read ?b' Hf)"
      using rf by (simp add: BlockDiagnostic_read_csv_update)
    have r2: "int (length (buffer ?s')) < fst (diagnostic_size ?s')"
      using le by (simp add: CSVOutputUtility_init_def)
    let ?s'' = "CSV_finalize (?s'\<lparr>buffer := buffer ?s' @ [projr (BlockDiagnostic_read ?b' Hf)]\<rparr>)"
    have fin: "BlockDiagnostic_finalize ?b' Hf out = Inr (?b'\<lparr>csv := Some ?s''\<rparr>, out)"
      by (rule BlockDiagnostic_finalize_csv [OF f'(1) f'(2) rf' r2 f'(3)])
    show ?thesis
      using st fin csv(1)
      by (intro exI [of _ ?b'] exI [of _ out] exI [of _ "?b'\<lparr>csv := Some ?s''\<rparr>"])
         (simp add: CSV_finalize_def CSVOutputUtility_init_def BlockDiagnostic_read_csv_update)
  qed
qed

theorem BlockDiagnostic_finalize_one_extra_sample_witness:
  "(\<exists>b' b'' s' s''.
      diagnose_steps
        \<lparr>diag_input_data = [''output_type'' \<mapsto> PStr ''csv'', ''filename'' \<mapsto> PStr ''block_x.csv'',
                            ''component'' \<mapsto> PStr ''position''],
         data = Some 0, component = PStr ''position'',
         output_function = Some csv_diagnose,
         csv = Some (CSVOutputUtility_init (PStr ''block_x.csv'') (3, 3))\<rparr>
        [(\<lambda>a. [[0, 1, 0]]), (\<lambda>a. [[0, 2, 0]])] [] = Inr (b', []) \<and>
      BlockDiagnostic_finalize b' (\<lambda>a. [[0, 3, 0]]) [] = Inr (b'', []) \<and>
      csv b' = Some s' \<and> buffer s' = [[0, 1, 0], [0, 2, 0]] \<and> written s' = None \<and>
      csv b'' = Some s'' \<and>
      written s'' = Some [[0, 1, 0], [0, 2, 0], [0, 3, 0]] \<and> finalized s'') \<and>
   (\<exists>b'.
      diagnose_steps
        \<lparr>diag_input_data = [''output_type'' \<mapsto> PStr ''stdout'', ''component'' \<mapsto> PStr ''position''],
         data = Some 0, component = PStr ''position'',
         output_function = Some print_diagnose, csv = None\<rparr>
        [(\<lambda>a. [[0, 1, 0]]), (\<lambda>a. [[0, 2, 0]])] [] = Inr (b', [[0, 1, 0], [0, 2, 0]]) \<and>
      BlockDiagnostic_finalize b' (\<lambda>a. [[0, 3, 0]]) [[0, 1, 0], [0, 2, 0]]
        = Inr (b', [[0, 1, 0], [0, 2, 0], [0, 3, 0]]) \<and>
      csv b' = None)"
proof (intro conjI)
  let ?c0 = "\<lparr>start_time = 0, end_time = 2, num_steps = 2, clock_dt = 1,
           current_time = 0, current_step = 0\<rparr> :: Clock"
  let ?cfg = "[''output_type'' \<mapsto> PStr ''csv'', ''filename'' \<mapsto> PStr ''block_x.csv'',
               ''component'' \<mapsto> PStr ''position'']"
  let ?b1 = "\<lparr>diag_input_data = ?cfg, data = None, component = PStr ''position'',
            output_function = Some csv_diagnose,
            csv = Some (CSVOutputUtility_init (PStr ''block_x.csv'') (3, 3))\<rparr>"
  let ?b = "\<lparr>diag_input_data = ?cfg, data = Some 0, component = PStr ''position'',
            output_function = Some csv_diagnose,
            csv = Some (CSVOutputUtility_init (PStr ''block_x.csv'') (3, 3))\<rparr>"
  let ?dir = "[''Block:position'' \<mapsto> (0::addr)]"
  let ?Hs = "[(\<lambda>a::addr. [[0::real, 1, 0]]), (\<lambda>a. [[0, 2, 0]])]"
  let ?Hf = "\<lambda>a::addr. [[0::real, 3, 0]]"
  have init: "BlockDiagnostic_initialize ?c0 (BlockDiagnostic_init ?cfg) = Inr ?b1"
    by (simp add: BlockDiagnostic_initialize_def BlockDiagnostic_init_def py_item_def py_get_def)
  have sub: "BlockDiagnostic_inspect_resource ?b1 ?dir = Inr ?b"
    by (simp add: BlockDiagnostic_inspect_resource_def resource_key_def)
  have reads: "\<forall>H \<in> set (?Hs @ [?Hf]). \<not> isl (BlockDiagnostic_read ?b H)"
    by (simp add: BlockDiagnostic_read_def)
  have room: "?cfg ''output_type'' = Some (PStr ''csv'') \<longrightarrow> int (length ?Hs) \<le> num_steps ?c0"
    by simp
  let ?rows = "map (\<lambda>H. projr (BlockDiagnostic_read ?b H)) ?Hs"
  let ?final = "projr (BlockDiagnostic_read ?b ?Hf)"
  let ?P = "\<lambda>b' out' b'' out''.
           diagnose_steps ?b ?Hs [] = Inr (b', out') \<and>
           BlockDiagnostic_finalize b' ?Hf out' = Inr (b'', out'') \<and>
           (?cfg ''output_type'' = Some (PStr ''stdout'') \<and>
              out' = [] @ ?rows \<and>
              out'' = out' @ [?final] \<and>
              length out'' = length ([] :: real list list) + (length ?Hs + 1) \<and>
              csv b'' = None
            \<or>
            ?cfg ''output_type'' = Some (PStr ''csv'') \<and>
              out'' = [] \<and>
              (\<exists>s' s''.
                 csv b' = Some s' \<and>
                 buffer s' = ?rows \<and>
                 written s' = None \<and> \<not> finalized s' \<and>
                 csv b'' = Some s'' \<and>
                 buffer s'' = buffer s' @ [?final] \<and>
                 written s'' = Some (buffer s' @ [?final]) \<and>
                 finalized s'' \<and>
                 length (buffer s'') = length ?Hs + 1))"
  have "\<exists>b' out' b'' out''. ?P b' out' b'' out''"
    by (rule BlockDiagnostic_finalize_one_extra_sample [OF init sub reads room])
  then obtain b' where "\<exists>out' b'' out''. ?P b' out' b'' out''" ..
  then obtain out' where "\<exists>b'' out''. ?P b' out' b'' out''" ..
  then obtain b'' where "\<exists>out''. ?P b' out' b'' out''" ..
  then obtain out'' where p: "?P b' out' b'' out''" ..
  then have st: "diagnose_steps ?b ?Hs [] = Inr (b', out')"
    and fin: "BlockDiagnostic_finalize b' ?Hf out' = Inr (b'', out'')"
    by blast+
  from p have "out'' = [] \<and>
              (\<exists>s' s''.
                 csv b' = Some s' \<and>
                 buffer s' = ?rows \<and>
                 written s' = None \<and> \<not> finalized s' \<and>
                 csv b'' = Some s'' \<and>
                 buffer s'' = buffer s' @ [?final] \<and>
                 written s'' = Some (buffer s' @ [?final]) \<and>
                 finalized s'' \<and>
                 length (buffer s'') = length ?Hs + 1)"
    by simp
  then obtain s' s'' where o: "out'' = []"
    and s: "csv b' = Some s'" "buffer s' = ?rows" "written s' = None"
      "csv b'' = Some s''" "written s'' = Some (buffer s' @ [?final])" "finalized s''"
    by blast
  have o': "out' = []"
    using st by (simp add: BlockDiagnostic_diagnose_def BlockDiagnostic_read_def CSV_append_def
        CSVOutputUtility_init_def)
  have r: "buffer s' = [[0, 1, 0], [0, 2, 0]]"
    unfolding s(2) by (simp add: BlockDiagnostic_read_def)
  have w: "written s'' = Some [[0, 1, 0], [0, 2, 0], [0, 3, 0]]"
    unfolding s(5) r by (simp add: BlockDiagnostic_read_def)
  show "\<exists>b' b'' s' s''.
      diagnose_steps ?b ?Hs [] = Inr (b', []) \<and>
      BlockDiagnostic_finalize b' ?Hf [] = Inr (b'', []) \<and>
      csv b' = Some s' \<and> buffer s' = [[0, 1, 0], [0, 2, 0]] \<and> written s' = None \<and>
      csv b'' = Some s'' \<and>
      written s'' = Some [[0, 1, 0], [0, 2, 0], [0, 3, 0]] \<and> finalized s''"
    using st fin s(1,3,4,6) r w unfolding o o'
    by (intro exI [of _ b'] exI [of _ b''] exI [of _ s'] exI [of _ s'']) simp
next
  let ?c0 = "\<lparr>start_time = 0, end_time = 2, num_steps = 2, clock_dt = 1,
           current_time = 0, current_step = 0\<rparr> :: Clock"
  let ?cfg = "[''output_type'' \<mapsto> PStr ''stdout'', ''component'' \<mapsto> PStr ''position'']"
  let ?b1 = "\<lparr>diag_input_data = ?cfg, data = None, component = PStr ''position'',
            output_function = Some print_diagnose, csv = None\<rparr>"
  let ?b = "\<lparr>diag_input_data = ?cfg, data = Some 0, component = PStr ''position'',
            output_function = Some print_diagnose, csv = None\<rparr>"
  let ?dir = "[''Block:position'' \<mapsto> (0::addr)]"
  let ?Hs = "[(\<lambda>a::addr. [[0::real, 1, 0]]), (\<lambda>a. [[0, 2, 0]])]"
  let ?Hf = "\<lambda>a::addr. [[0::real, 3, 0]]"
  have init: "BlockDiagnostic_initialize ?c0 (BlockDiagnostic_init ?cfg) = Inr ?b1"
    by (simp add: BlockDiagnostic_initialize_def BlockDiagnostic_init_def py_item_def py_get_def)
  have sub: "BlockDiagnostic_inspect_resource ?b1 ?dir = Inr ?b"
    by (simp add: BlockDiagnostic_inspect_resource_def resource_key_def)
  have reads: "\<forall>H \<in> set (?Hs @ [?Hf]). \<not> isl (BlockDiagnostic_read ?b H)"
    by (simp add: BlockDiagnostic_read_def)
  have room: "?cfg ''output_type'' = Some (PStr ''csv'') \<longrightarrow> int (length ?Hs) \<le> num_steps ?c0"
    by simp
  let ?rows = "map (\<lambda>H. projr (BlockDiagnostic_read ?b H)) ?Hs"
  let ?final = "projr (BlockDiagnostic_read ?b ?Hf)"
  let ?P = "\<lambda>b' out' b'' out''.
           diagnose_steps ?b ?Hs [] = Inr (b', out') \<and>
           BlockDiagnostic_finalize b' ?Hf out' = Inr (b'', out'') \<and>
           (?cfg ''output_type'' = Some (PStr ''stdout'') \<and>
              out' = [] @ ?rows \<and>
              out'' = out' @ [?final] \<and>
              length out'' = length ([] :: real list list) + (length ?Hs + 1) \<and>
              csv b'' = None
            \<or>
            ?cfg ''output_type'' = Some (PStr ''csv'') \<and>
              out'' = [] \<and>
              (\<exists>s' s''.
                 csv b' = Some s' \<and>
                 buffer s' = ?rows \<and>
                 written s' = None \<and> \<not> finalized s' \<and>
                 csv b'' = Some s'' \<and>
                 buffer s'' = buffer s' @ [?final] \<and>
                 written s'' = Some (buffer s' @ [?final]) \<and>
                 finalized s'' \<and>
                 length (buffer s'') = length ?Hs + 1))"
  have "\<exists>b' out' b'' out''. ?P b' out' b'' out''"
    by (rule BlockDiagnostic_finalize_one_extra_sample [OF init sub reads room])
  then obtain b' where "\<exists>out' b'' out''. ?P b' out' b'' out''" ..
  then obtain out' where "\<exists>b'' out''. ?P b' out' b'' out''" ..
  then obtain b'' where "\<exists>out''. ?P b' out' b'' out''" ..
  then obtain out'' where p: "?P b' out' b'' out''" ..
  then have st: "diagnose_steps ?b ?Hs [] = Inr (b', out')"
    and fin: "BlockDiagnostic_finalize b' ?Hf out' = Inr (b'', out'')"
    by blast+
  from p have q: "out' = [] @ ?rows \<and> out'' = out' @ [?final] \<and> csv b'' = None"
    by simp
  then have o: "out' = [[0, 1, 0], [0, 2, 0]]" "out'' = [[0, 1, 0], [0, 2, 0], [0, 3, 0]]"
    and n: "csv b'' = None"
    by (simp_all add: BlockDiagnostic_read_def)
  have b': "b' = ?b"
    using st by (simp add: BlockDiagnostic_diagnose_def BlockDiagnostic_read_def)
  have e: "b'' = b'"
    using fin unfolding b'
    by (simp add: BlockDiagnostic_finalize_def BlockDiagnostic_diagnose_def
        BlockDiagnostic_read_def py_item_def)
  show "\<exists>b'. diagnose_steps ?b ?Hs [] = Inr (b', [[0, 1, 0], [0, 2, 0]]) \<and>
      BlockDiagnostic_finalize b' ?Hf [[0, 1, 0], [0, 2, 0]]
        = Inr (b', [[0, 1, 0], [0, 2, 0], [0, 3, 0]]) \<and>
      csv b' = None"
    using st fin n unfolding o e
    by (intro exI [of _ b']) simp
qed

section \<open>Shared buffers\<close>

lemma BlockOnSpring_exchange_resources_empty:
  "BlockOnSpring_exchange_resources m Map.empty
     = Inr [''Block:position'' \<mapsto> position m, ''Block:momentum'' \<mapsto> momentum m]"
  by (simp add: BlockOnSpring_exchange_resources_def publish_def)

lemma BlockDiagnostic_diagnose_data:
  "BlockDiagnostic_diagnose d H out = Inr (d', out') \<Longrightarrow>
     data d' = data d \<and> component d' = component d \<and>
     output_function d' = output_function d \<and> diag_input_data d' = diag_input_data d"
  by (auto simp: BlockDiagnostic_diagnose_def CSV_append_def
           split: option.splits list.splits output_function.splits sum.splits if_splits)

lemma BlockDiagnostic_finalize_data:
  "BlockDiagnostic_finalize d H out = Inr (d', out') \<Longrightarrow> data d' = data d"
  by (auto simp: BlockDiagnostic_finalize_def split: sum.splits prod.splits if_splits option.splits
           dest: BlockDiagnostic_diagnose_data)

lemma BlockOnSpring_update_writes:
  fixes H :: "'a::{plus,minus,times,inverse} heap"
  assumes "number (mass m) = Inr mm" and "number (spring_constant m) = Inr kk"
    and "dt (objs (push m)) = Some h"
    and "shape (H (position m)) = sh" and "shape (H (momentum m)) = sh"
    and "position m \<noteq> momentum m"
  shows "\<exists>H'. BlockOnSpring_update number objs m H = Inr H' \<and>
           H' (position m)
             = arr_add (H (position m)) (arr_sdiv (arr_smul h (H (momentum m))) mm) \<and>
           H' (momentum m)
             = arr_sub (H (momentum m)) (arr_smul (h * kk) (H' (position m))) \<and>
           (\<forall>b. b \<noteq> position m \<and> b \<noteq> momentum m \<longrightarrow> H' b = H b) \<and>
           shape (H' (position m)) = sh \<and> shape (H' (momentum m)) = sh"
proof -
  from Leapfrog_push_shape [OF assms(3) assms(4) assms(5), of mm kk]
  obtain H' where p: "Leapfrog_push (objs (push m)) H (position m) (momentum m) mm kk = Inr H'"
    and sh: "shape (H' (position m)) = sh" "shape (H' (momentum m)) = sh"
    by blast
  have u: "BlockOnSpring_update number objs m H = Inr H'"
    using assms(1,2) p by (simp add: BlockOnSpring_update_def)
  from p assms(3,4,5,6) have eq: "H' = (H(position m :=
           arr_add (H (position m)) (arr_sdiv (arr_smul h (H (momentum m))) mm)))
         (momentum m := arr_sub (H (momentum m))
            (arr_smul (h * kk)
               (arr_add (H (position m)) (arr_sdiv (arr_smul h (H (momentum m))) mm))))"
    by (simp add: Leapfrog_push_def Let_def)
  show ?thesis
    using u sh assms(6) by (intro exI [of _ H']) (simp add: eq)
qed

lemma update_steps_shape:
  fixes H :: "'a::{plus,minus,times,inverse} heap"
  assumes "number (mass m) = Inr mm" and "number (spring_constant m) = Inr kk"
    and "dt (objs (push m)) = Some h"
    and "shape (H (position m)) = sh" and "shape (H (momentum m)) = sh"
    and "position m \<noteq> momentum m"
  shows "\<exists>Hn. update_steps n number objs m H = Inr Hn \<and>
           shape (Hn (position m)) = sh \<and> shape (Hn (momentum m)) = sh"
proof (induction n)
  case 0
  show ?case using assms(4,5) by simp
next
  case (Suc n)
  then obtain Hn where n: "update_steps n number objs m H = Inr Hn"
    and sh: "shape (Hn (position m)) = sh" "shape (Hn (momentum m)) = sh"
    by blast
  from BlockOnSpring_update_writes
    [where number = number and objs = objs and m = m and H = Hn, OF assms(1) assms(2) assms(3) sh assms(6)]
  obtain H' where "BlockOnSpring_update number objs m Hn = Inr H'"
    and "shape (H' (position m)) = sh" "shape (H' (momentum m)) = sh"
    by blast
  then show ?case
    using n by (intro exI [of _ H']) simp
qed

text \<open>
  Claim C5. A published buffer is shared, not copied. After the module has published its
  arrays and a diagnostic for the component \<open>c\<close> has inspected the directory, the
  diagnostic's data is the very address \<open>a\<close> of the module's position (or momentum)
  array. From then on, whatever the number \<open>n\<close> of updates already made, the next
  \<^verbatim>\<open>update\<close> of the module succeeds, writes in place, at the module's two addresses,
  the arrays of the push (the new position, then the new momentum computed from it) and
  changes no other address; and a read by this diagnostic, or by any other that holds the
  address \<open>a\<close>, in the store so written returns row 0 of the array just written at \<open>a\<close>,
  with nothing published again in between. Neither a sample nor \<^verbatim>\<open>finalize()\<close> rebinds
  the data of a diagnostic that holds \<open>a\<close>, so this lasts as long as the diagnostic does.
  It holds in any arithmetic: no law of arithmetic is used.
\<close>

theorem published_buffer_is_shared:
  fixes H :: "'a::{plus,minus,times,inverse} heap"
  assumes ex: "BlockOnSpring_exchange_resources m Map.empty = Inr dir"
    and comp: "component d = PStr c"
    and ca: "(c = ''position'' \<and> a = position m) \<or> (c = ''momentum'' \<and> a = momentum m)"
    and mass: "number (mass m) = Inr mm"
    and spring: "number (spring_constant m) = Inr kk"
    and tool: "dt (objs (push m)) = Some h"
    and shp: "shape (H (position m)) = shape (H (momentum m))"
    and ne: "H (position m) \<noteq> []"
    and dist: "position m \<noteq> momentum m"
  shows "\<exists>d0. BlockDiagnostic_inspect_resource d dir = Inr d0 \<and> data d0 = Some a \<and>
           (\<forall>n. \<exists>Hn Hn'.
              update_steps n number objs m H = Inr Hn \<and>
              BlockOnSpring_update number objs m Hn = Inr Hn' \<and>
              Hn' (position m)
                = arr_add (Hn (position m)) (arr_sdiv (arr_smul h (Hn (momentum m))) mm) \<and>
              Hn' (momentum m)
                = arr_sub (Hn (momentum m)) (arr_smul (h * kk) (Hn' (position m))) \<and>
              (\<forall>b. b \<noteq> position m \<and> b \<noteq> momentum m \<longrightarrow> Hn' b = Hn b) \<and>
              Hn' a \<noteq> [] \<and>
              (\<forall>d1. data d1 = Some a \<longrightarrow> BlockDiagnostic_read d1 Hn' = Inr (hd (Hn' a)))) \<and>
           (\<forall>d1 H1 out d' out'.
              data d1 = Some a \<and>
              (BlockDiagnostic_diagnose d1 H1 out = Inr (d', out') \<or>
               BlockDiagnostic_finalize d1 H1 out = Inr (d', out'))
              \<longrightarrow> data d' = Some a)"
proof -
  from ex have dir: "dir = [''Block:position'' \<mapsto> position m, ''Block:momentum'' \<mapsto> momentum m]"
    by (simp add: BlockOnSpring_exchange_resources_empty)
  let ?d0 = "d\<lparr>data := Some a\<rparr>"
  have ins: "BlockDiagnostic_inspect_resource d dir = Inr ?d0"
    using comp ca by (auto simp: BlockDiagnostic_inspect_resource_def resource_key_def dir)
  have dat: "data ?d0 = Some a" by simp
  define sh where "sh = shape (H (position m))"
  have sh0: "shape (H (position m)) = sh" "shape (H (momentum m)) = sh"
    using shp by (simp_all add: sh_def)
  have shne: "b \<noteq> []" if "shape b = sh" for b :: "'a ndarray"
    using that ne unfolding sh_def by (auto simp: shape_def)
  have step: "\<exists>Hn Hn'.
              update_steps n number objs m H = Inr Hn \<and>
              BlockOnSpring_update number objs m Hn = Inr Hn' \<and>
              Hn' (position m)
                = arr_add (Hn (position m)) (arr_sdiv (arr_smul h (Hn (momentum m))) mm) \<and>
              Hn' (momentum m)
                = arr_sub (Hn (momentum m)) (arr_smul (h * kk) (Hn' (position m))) \<and>
              (\<forall>b. b \<noteq> position m \<and> b \<noteq> momentum m \<longrightarrow> Hn' b = Hn b) \<and>
              Hn' a \<noteq> [] \<and>
              (\<forall>d1. data d1 = Some a \<longrightarrow> BlockDiagnostic_read d1 Hn' = Inr (hd (Hn' a)))" for n
  proof -
    from update_steps_shape
      [where number = number and objs = objs and m = m and H = H and n = n,
       OF mass spring tool sh0 dist]
    obtain Hn where n: "update_steps n number objs m H = Inr Hn"
      and shn: "shape (Hn (position m)) = sh" "shape (Hn (momentum m)) = sh"
      by blast
    from BlockOnSpring_update_writes
      [where number = number and objs = objs and m = m and H = Hn,
       OF mass spring tool shn dist]
    obtain Hn' where u: "BlockOnSpring_update number objs m Hn = Inr Hn'"
      and w: "Hn' (position m)
             = arr_add (Hn (position m)) (arr_sdiv (arr_smul h (Hn (momentum m))) mm)"
        "Hn' (momentum m)
             = arr_sub (Hn (momentum m)) (arr_smul (h * kk) (Hn' (position m)))"
      and fr: "\<forall>b. b \<noteq> position m \<and> b \<noteq> momentum m \<longrightarrow> Hn' b = Hn b"
      and sh': "shape (Hn' (position m)) = sh" "shape (Hn' (momentum m)) = sh"
      by blast
    from ca sh' have "shape (Hn' a) = sh" by auto
    then have nea: "Hn' a \<noteq> []" by (rule shne)
    then have rd: "\<forall>d1. data d1 = Some a \<longrightarrow> BlockDiagnostic_read d1 Hn' = Inr (hd (Hn' a))"
      by (cases "Hn' a") (simp_all add: BlockDiagnostic_read_def)
    show ?thesis
      by (intro exI [of _ Hn] exI [of _ Hn'] conjI n u w fr nea rd)
  qed
  have keep: "\<forall>d1 H1 out d' out'.
              data d1 = Some a \<and>
              (BlockDiagnostic_diagnose d1 H1 out = Inr (d', out') \<or>
               BlockDiagnostic_finalize d1 H1 out = Inr (d', out'))
              \<longrightarrow> data d' = Some a"
    by (auto dest: BlockDiagnostic_diagnose_data BlockDiagnostic_finalize_data)
  have all: "\<forall>n. \<exists>Hn Hn'.
              update_steps n number objs m H = Inr Hn \<and>
              BlockOnSpring_update number objs m Hn = Inr Hn' \<and>
              Hn' (position m)
                = arr_add (Hn (position m)) (arr_sdiv (arr_smul h (Hn (momentum m))) mm) \<and>
              Hn' (momentum m)
                = arr_sub (Hn (momentum m)) (arr_smul (h * kk) (Hn' (position m))) \<and>
              (\<forall>b. b \<noteq> position m \<and> b \<noteq> momentum m \<longrightarrow> Hn' b = Hn b) \<and>
              Hn' a \<noteq> [] \<and>
              (\<forall>d1. data d1 = Some a \<longrightarrow> BlockDiagnostic_read d1 Hn' = Inr (hd (Hn' a)))"
    using step by blast
  show ?thesis
    by (intro exI [of _ ?d0] conjI ins dat all keep)
qed


theorem published_buffer_is_shared_witness:
  "\<exists>dir d0 H1 H2.
     BlockOnSpring_exchange_resources
       \<lparr>input_data = Map.empty, position = 0, momentum = 1, mass = PInt 1,
        spring_constant = PInt 1, push = 0\<rparr> Map.empty = Inr dir \<and>
     BlockDiagnostic_inspect_resource
       \<lparr>diag_input_data = Map.empty, data = None, component = PStr ''position'',
        output_function = Some print_diagnose, csv = None\<rparr> dir = Inr d0 \<and>
     data d0 = Some 0 \<and>
     update_steps 1 coefficient (\<lambda>a. \<lparr>tool_input_data = Map.empty, dt = Some 1\<rparr>)
       \<lparr>input_data = Map.empty, position = 0, momentum = 1, mass = PInt 1,
        spring_constant = PInt 1, push = 0\<rparr>
       ((\<lambda>a. [])(0 := [[1]], 1 := [[1]])) = Inr H1 \<and>
     BlockOnSpring_update coefficient (\<lambda>a. \<lparr>tool_input_data = Map.empty, dt = Some 1\<rparr>)
       \<lparr>input_data = Map.empty, position = 0, momentum = 1, mass = PInt 1,
        spring_constant = PInt 1, push = 0\<rparr> H1 = Inr H2 \<and>
     H1 0 = [[2]] \<and> H1 1 = [[- 1]] \<and> H2 0 = [[1]] \<and> H2 1 = [[- 2]] \<and> H2 2 = [] \<and>
     BlockDiagnostic_read d0 H1 = Inr [2] \<and>
     BlockDiagnostic_read d0 H2 = Inr [1]"
proof -
  let ?m = "\<lparr>input_data = Map.empty, position = 0, momentum = 1, mass = PInt 1,
        spring_constant = PInt 1, push = 0\<rparr>"
  let ?d = "\<lparr>diag_input_data = Map.empty, data = None, component = PStr ''position'',
        output_function = Some print_diagnose, csv = None\<rparr>"
  let ?dir = "[''Block:position'' \<mapsto> position ?m, ''Block:momentum'' \<mapsto> momentum ?m]"
  let ?objs = "\<lambda>a::addr. \<lparr>tool_input_data = Map.empty, dt = Some (1::real)\<rparr>"
  let ?H = "(\<lambda>a. [])(0 := [[1::real]], 1 := [[1]])"
  let ?H1 = "(\<lambda>a. [])(0 := [[2::real]], 1 := [[- 1]])"
  have ex: "BlockOnSpring_exchange_resources ?m Map.empty = Inr ?dir"
    by (simp add: BlockOnSpring_exchange_resources_def publish_def)
  have c: "component ?d = PStr ''position''" by simp
  have ca: "(''position'' = ''position'' \<and> 0 = position ?m) \<or>
            (''position'' = ''momentum'' \<and> 0 = momentum ?m)" by simp
  have ms: "coefficient (mass ?m) = Inr 1" by simp
  have sp: "coefficient (spring_constant ?m) = Inr 1" by simp
  have tl: "dt (?objs (push ?m)) = Some 1" by simp
  have shp: "shape (?H (position ?m)) = shape (?H (momentum ?m))" by (simp add: shape_def)
  have ne: "?H (position ?m) \<noteq> []" by simp
  have dist: "position ?m \<noteq> momentum ?m" by simp
  let ?S = "\<lambda>d0 n Hn Hn'.
              update_steps n coefficient ?objs ?m ?H = Inr Hn \<and>
              BlockOnSpring_update coefficient ?objs ?m Hn = Inr Hn' \<and>
              Hn' (position ?m)
                = arr_add (Hn (position ?m)) (arr_sdiv (arr_smul 1 (Hn (momentum ?m))) 1) \<and>
              Hn' (momentum ?m)
                = arr_sub (Hn (momentum ?m)) (arr_smul (1 * 1) (Hn' (position ?m))) \<and>
              (\<forall>b. b \<noteq> position ?m \<and> b \<noteq> momentum ?m \<longrightarrow> Hn' b = Hn b) \<and>
              Hn' 0 \<noteq> [] \<and>
              (\<forall>d1. data d1 = Some 0 \<longrightarrow> BlockDiagnostic_read d1 Hn' = Inr (hd (Hn' 0)))"
  let ?K = "\<forall>d1 (H1 :: real heap) out d' out'.
              data d1 = Some 0 \<and>
              (BlockDiagnostic_diagnose d1 H1 out = Inr (d', out') \<or>
               BlockDiagnostic_finalize d1 H1 out = Inr (d', out'))
              \<longrightarrow> data d' = Some 0"
  have "\<exists>d0. BlockDiagnostic_inspect_resource ?d ?dir = Inr d0 \<and> data d0 = Some 0 \<and>
          (\<forall>n. \<exists>Hn Hn'. ?S d0 n Hn Hn') \<and> ?K"
    by (rule published_buffer_is_shared
          [where number = coefficient and objs = ?objs and H = ?H and m = ?m
             and c = "''position''",
           OF ex c ca ms sp tl shp ne dist])
  then obtain d0 where ins: "BlockDiagnostic_inspect_resource ?d ?dir = Inr d0"
    and dat: "data d0 = Some 0"
    and steps: "\<forall>n. \<exists>Hn Hn'. ?S d0 n Hn Hn'"
    by blast
  from steps have "\<exists>Hn Hn'. ?S d0 0 Hn Hn'" ..
  then obtain Ha H1 where a: "?S d0 0 Ha H1" by blast
  from steps have "\<exists>Hn Hn'. ?S d0 1 Hn Hn'" ..
  then obtain Hb H2 where b: "?S d0 1 Hb H2" by blast
  from a have Ha: "Ha = ?H" by simp
  from a have u1: "BlockOnSpring_update coefficient ?objs ?m Ha = Inr H1" by blast
  from b have s1: "update_steps 1 coefficient ?objs ?m ?H = Inr Hb" by blast
  then have Hb: "Hb = H1"
    using u1 Ha by simp
  have H1: "H1 = ?H1"
    using u1 unfolding Ha
    by (simp add: BlockOnSpring_update_def Leapfrog_push_def shape_def Let_def arr_add_def
        arr_sub_def arr_smul_def arr_sdiv_def fun_eq_iff)
  from b have u2: "BlockOnSpring_update coefficient ?objs ?m H1 = Inr H2"
    and x2: "H2 (position ?m)
                = arr_add (H1 (position ?m)) (arr_sdiv (arr_smul 1 (H1 (momentum ?m))) 1)"
    and p2: "H2 (momentum ?m)
                = arr_sub (H1 (momentum ?m)) (arr_smul (1 * 1) (H2 (position ?m)))"
    and fr2: "\<forall>b. b \<noteq> position ?m \<and> b \<noteq> momentum ?m \<longrightarrow> H2 b = H1 b"
    and a2: "\<forall>d1. data d1 = Some 0 \<longrightarrow> BlockDiagnostic_read d1 H2 = Inr (hd (H2 0))"
    unfolding Hb by blast+
  from a have a1: "\<forall>d1. data d1 = Some 0 \<longrightarrow> BlockDiagnostic_read d1 H1 = Inr (hd (H1 0))"
    by blast
  from a1 dat have r1: "BlockDiagnostic_read d0 H1 = Inr (hd (H1 0))" by blast
  from a2 dat have r2: "BlockDiagnostic_read d0 H2 = Inr (hd (H2 0))" by blast
  have v1: "H1 0 = [[2]]" "H1 (Suc 0) = [[- 1]]" by (simp_all add: H1)
  have v2: "H2 0 = [[1]]"
    using x2 by (simp add: v1 arr_add_def arr_smul_def arr_sdiv_def)
  have w2: "H2 (Suc 0) = [[- 2]]"
    using p2 by (simp add: v1 v2 arr_sub_def arr_smul_def)
  have f2: "H2 2 = []"
    using fr2 by (simp add: H1)
  from s1 have s1': "update_steps 1 coefficient ?objs ?m ?H = Inr H1"
    unfolding Hb .
  show ?thesis
    using ex ins dat s1' u2 v1 v2 w2 f2 r1 r2
    by (intro exI [of _ ?dir] exI [of _ d0] exI [of _ H1] exI [of _ H2]) simp
qed

section \<open>The order of the calls\<close>

lemma loop_body_clock:
  "loop_body sim = Inr sim' \<Longrightarrow> clock sim' = Clock_advance (clock sim)"
  by (auto simp: loop_body_def update_modules_def diagnose_all_def advance_clock_def
           split: sum.splits prod.splits)

lemma upt_Suc_shift: "[i ..< Suc (i + n)] = i # [Suc i ..< Suc (i + n)]"
  by (rule upt_conv_Cons) simp

lemma for_each_trace:
  "for_each ev f i xs s tr = Inr (s', tr') \<Longrightarrow> tr' = tr @ map ev [i ..< i + length xs]"
proof (induction xs arbitrary: i s tr)
  case Nil
  then show ?case by simp
next
  case (Cons x xs)
  from Cons.prems obtain s1 where "f x s = Inr s1"
    and rest: "for_each ev f (Suc i) xs s1 (tr @ [ev i]) = Inr (s', tr')"
    by (auto split: sum.splits)
  from Cons.IH [OF rest] show ?case
    by (simp add: upt_Suc_shift del: upt_Suc)
qed

lemma map_each_trace:
  "map_each ev f i xs s tr = Inr (xs', s', tr') \<Longrightarrow>
     tr' = tr @ map ev [i ..< i + length xs] \<and> length xs' = length xs"
proof (induction xs arbitrary: i s tr xs')
  case Nil
  then show ?case by simp
next
  case (Cons x xs)
  from Cons.prems obtain x1 s1 xs1 where "f x s = Inr (x1, s1)"
    and rest: "map_each ev f (Suc i) xs s1 (tr @ [ev i]) = Inr (xs1, s', tr')"
    and xs': "xs' = x1 # xs1"
    by (auto split: sum.splits prod.splits)
  from Cons.IH [OF rest] show ?case
    by (simp add: xs' upt_Suc_shift del: upt_Suc)
qed

lemma loop_body_trace:
  assumes "loop_body sim = Inr sim'"
  shows "trace sim' = trace sim
           @ iteration_events (length (physics_modules sim)) (length (diagnostics sim))"
    and "length (physics_modules sim') = length (physics_modules sim)"
    and "length (diagnostics sim') = length (diagnostics sim)"
    and "phase sim' = phase sim"
proof -
  from assms obtain s1 s2 where u: "update_modules sim = Inr s1"
    and d: "diagnose_all s1 = Inr s2" and a: "sim' = advance_clock s2"
    by (auto simp: loop_body_def split: sum.splits)
  from u obtain H tr where fe: "for_each Update (BlockOnSpring_update coefficient (tool_objs sim)) 0
        (physics_modules sim) (heap sim) (trace sim) = Inr (H, tr)"
    and s1: "s1 = sim\<lparr>heap := H, trace := tr\<rparr>"
    by (auto simp: update_modules_def split: sum.splits prod.splits)
  from d obtain ds out tr' where me: "map_each Diagnose (diagnostic_diagnose (clock s1) (heap s1)) 0
        (diagnostics s1) (printed_rows s1) (trace s1) = Inr (ds, out, tr')"
    and s2: "s2 = s1\<lparr>diagnostics := ds, printed_rows := out, trace := tr'\<rparr>"
    by (auto simp: diagnose_all_def split: sum.splits prod.splits)
  from for_each_trace [OF fe] map_each_trace [OF me]
  show "trace sim' = trace sim
           @ iteration_events (length (physics_modules sim)) (length (diagnostics sim))"
    and "length (physics_modules sim') = length (physics_modules sim)"
    and "length (diagnostics sim') = length (diagnostics sim)"
    and "phase sim' = phase sim"
    by (simp_all add: a s2 s1 advance_clock_def iteration_events_def)
qed

lemma Clock_advance_fields:
  "num_steps (Clock_advance c) = num_steps c"
  "current_step (Clock_advance c) = current_step c + 1"
  "clock_dt (Clock_advance c) = clock_dt c"
  "current_time (Clock_advance c) = current_time c + clock_dt c"
  "start_time (Clock_advance c) = start_time c"
  by (simp_all add: Clock_advance_def)

lemma run_loop_trace:
  "run_loop sim = Inr sim' \<Longrightarrow>
     trace sim' = trace sim
        @ concat (replicate (nat (num_steps (clock sim) - current_step (clock sim)))
            (iteration_events (length (physics_modules sim)) (length (diagnostics sim)))) \<and>
     length (diagnostics sim') = length (diagnostics sim) \<and>
     phase sim' = phase sim \<and>
     Clock_is_finished (clock sim')"
proof (induction sim rule: run_loop.induct)
  case (1 sim)
  show ?case
  proof (cases "Clock_is_finished (clock sim)")
    case True
    with "1.prems" have "sim' = sim" by (simp add: run_loop.simps [of sim])
    with True show ?thesis by (simp add: Clock_is_finished_def)
  next
    case False
    with "1.prems" obtain s1 where body: "loop_body sim = Inr s1" and rest: "run_loop s1 = Inr sim'"
      by (auto simp: run_loop.simps [of sim] split: sum.splits)
    note ih = "1.IH" [OF False body rest]
    have clk: "clock s1 = Clock_advance (clock sim)"
      by (rule loop_body_clock [OF body])
    from False have pos: "current_step (clock sim) < num_steps (clock sim)"
      by (simp add: Clock_is_finished_def)
    then have n: "nat (num_steps (clock sim) - current_step (clock sim))
        = Suc (nat (num_steps (clock s1) - current_step (clock s1)))"
      by (simp add: clk Clock_advance_fields)
    from ih loop_body_trace [OF body] show ?thesis
      by (simp add: n)
  qed
qed

lemma tutorial_build:
  "Simulation_init tutorial_registries tutorial_input_data = Inr tutorial_sim"
  by (simp add: Simulation_init_def tutorial_registries_def tutorial_input_data_def
        tutorial_sim_def as_dict_def section_entries_def Clock_init_def create_def
        Leapfrog_factory_def BlockOnSpring_factory_def BlockOnSpring_init_def
        BlockDiagnostic_factory_def ClockDiagnostic_factory_def py_item_def py_get_def
        numeral_2_eq_2)


section \<open>A run that goes through\<close>

lemma map_each_all2:
  assumes "\<And>x. x \<in> set xs \<Longrightarrow> P x \<Longrightarrow> \<exists>x'. f x s = Inr (x', s) \<and> R x x'"
    and "list_all P xs"
  shows "\<exists>xs'. map_each ev f i xs s tr = Inr (xs', s, tr @ map ev [i ..< i + length xs]) \<and>
           list_all2 R xs xs'"
  using assms
proof (induction xs arbitrary: i tr)
  case Nil
  then show ?case by simp
next
  case (Cons x xs)
  from Cons.prems obtain x' where x': "f x s = Inr (x', s)" "R x x'"
    by auto
  have "\<exists>xs'. map_each ev f (Suc i) xs s (tr @ [ev i])
            = Inr (xs', s, (tr @ [ev i]) @ map ev [Suc i ..< Suc i + length xs]) \<and>
           list_all2 R xs xs'"
    using Cons.prems by (intro Cons.IH) auto
  then obtain xs' where rest: "map_each ev f (Suc i) xs s (tr @ [ev i])
            = Inr (xs', s, (tr @ [ev i]) @ map ev [Suc i ..< Suc i + length xs])"
    and all2: "list_all2 R xs xs'"
    by blast
  show ?case
    using x' rest all2
    by (intro exI [of _ "x' # xs'"]) (simp add: upt_Suc_shift del: upt_Suc)
qed

lemma shape_row3: "shape a = [3] \<Longrightarrow> \<exists>row. a = [row] \<and> length row = 3"
  by (cases a) (auto simp: shape_def)

lemma update_modules_ready:
  assumes "loop_ready m sim"
  shows "\<exists>H. update_modules sim = Inr (sim\<lparr>heap := H, trace := trace sim @ [Update 0]\<rparr>) \<and>
           shape (H (position m)) = [3] \<and> shape (H (momentum m)) = [3]"
proof -
  from assms obtain mm kk h where c: "coefficient (mass m) = Inr mm"
      "coefficient (spring_constant m) = Inr kk" "dt (tool_objs sim (push m)) = Some h"
    by (cases "coefficient (mass m)"; cases "coefficient (spring_constant m)")
       (auto simp: loop_ready_def)
  from assms have sh: "shape (heap sim (position m)) = [3]" "shape (heap sim (momentum m)) = [3]"
    and ms: "physics_modules sim = [m]"
    by (simp_all add: loop_ready_def)
  from Leapfrog_push_shape [OF c(3) sh, of mm kk]
  obtain H where "Leapfrog_push (tool_objs sim (push m)) (heap sim) (position m) (momentum m) mm kk
      = Inr H" and "shape (H (position m)) = [3]" "shape (H (momentum m)) = [3]"
    by blast
  then show ?thesis
    using c ms by (intro exI [of _ H]) (simp add: update_modules_def BlockOnSpring_update_def)
qed

lemma diagnostic_diagnose_ready:
  assumes "diag_ready c m d" and "current_step c \<le> num_steps c"
    and "shape (H (position m)) = [3]" and "shape (H (momentum m)) = [3]"
  shows "\<exists>d'. diagnostic_diagnose c H d out = Inr (d', out) \<and>
           diag_ready (Clock_advance c) m d'"
proof (cases d)
  case (ClockDiag cd)
  with assms(1) obtain s where s: "clock_output_function cd = Some csv_diagnose"
      "clock_csv cd = Some s"
      "int (length (buffer s)) + (num_steps c - current_step c) + 1 \<le> fst (diagnostic_size s)"
    by (auto simp: sink_room_def split: option.splits)
  let ?s' = "s\<lparr>buffer := buffer s @ [[current_time c]]\<rparr>"
  have "ClockDiagnostic_diagnose c cd out = Inr (cd\<lparr>clock_csv := Some ?s'\<rparr>, out)"
    using s assms(2) by (simp add: ClockDiagnostic_diagnose_def CSV_append_def)
  then show ?thesis
    using s by (simp add: ClockDiag sink_room_def Clock_advance_fields)
next
  case (BlockDiag bd)
  with assms(1) obtain s a where s: "output_function bd = Some csv_diagnose"
      "diag_input_data bd ''output_type'' = Some (PStr ''csv'')"
      "data bd = Some a" "a = position m \<or> a = momentum m"
      "csv bd = Some s"
      "int (length (buffer s)) + (num_steps c - current_step c) + 1 \<le> fst (diagnostic_size s)"
    by (auto simp: sink_room_def split: option.splits)
  from s(4) assms(3,4) have "shape (H a) = [3]" by auto
  then obtain row where row: "H a = [row]"
    using shape_row3 by blast
  let ?s' = "s\<lparr>buffer := buffer s @ [row]\<rparr>"
  have "BlockDiagnostic_diagnose bd H out = Inr (bd\<lparr>csv := Some ?s'\<rparr>, out)"
    using s assms(2) row
    by (simp add: BlockDiagnostic_diagnose_def BlockDiagnostic_read_def CSV_append_def)
  then show ?thesis
    using s by (auto simp: BlockDiag sink_room_def Clock_advance_fields)
qed

lemma diagnose_all_ready:
  assumes "list_all (diag_ready (clock sim) m) (diagnostics sim)"
    and "current_step (clock sim) \<le> num_steps (clock sim)"
    and "shape (heap sim (position m)) = [3]" and "shape (heap sim (momentum m)) = [3]"
  shows "\<exists>ds. diagnose_all sim
             = Inr (sim\<lparr>diagnostics := ds, printed_rows := printed_rows sim,
                        trace := trace sim @ map Diagnose [0 ..< length (diagnostics sim)]\<rparr>) \<and>
           list_all2 (\<lambda>d d'. diag_ready (Clock_advance (clock sim)) m d')
             (diagnostics sim) ds"
proof -
  have "\<exists>ds. map_each Diagnose (diagnostic_diagnose (clock sim) (heap sim)) 0 (diagnostics sim)
               (printed_rows sim) (trace sim)
             = Inr (ds, printed_rows sim,
                    trace sim @ map Diagnose [0 ..< 0 + length (diagnostics sim)]) \<and>
           list_all2 (\<lambda>d d'. diag_ready (Clock_advance (clock sim)) m d')
             (diagnostics sim) ds"
  proof (rule map_each_all2 [where P = "diag_ready (clock sim) m"])
    fix x
    assume "x \<in> set (diagnostics sim)" and r: "diag_ready (clock sim) m x"
    show "\<exists>x'. diagnostic_diagnose (clock sim) (heap sim) x (printed_rows sim)
                     = Inr (x', printed_rows sim) \<and>
                   diag_ready (Clock_advance (clock sim)) m x'"
      by (rule diagnostic_diagnose_ready [OF r assms(2) assms(3) assms(4)])
  next
    show "list_all (diag_ready (clock sim) m) (diagnostics sim)"
      by (rule assms(1))
  qed
  then show ?thesis
    by (auto simp: diagnose_all_def)
qed

lemma loop_body_ready:
  assumes "loop_ready m sim"
  shows "\<exists>sim'. loop_body sim = Inr sim' \<and> clock sim' = Clock_advance (clock sim) \<and>
           physics_modules sim' = [m] \<and> tool_objs sim' = tool_objs sim \<and>
           shape (heap sim' (position m)) = [3] \<and> shape (heap sim' (momentum m)) = [3] \<and>
           list_all2 (\<lambda>d d'. diag_ready (Clock_advance (clock sim)) m d')
             (diagnostics sim) (diagnostics sim')"
proof -
  from update_modules_ready [OF assms]
  obtain H where u: "update_modules sim = Inr (sim\<lparr>heap := H, trace := trace sim @ [Update 0]\<rparr>)"
    and sh: "shape (H (position m)) = [3]" "shape (H (momentum m)) = [3]"
    by blast
  let ?s1 = "sim\<lparr>heap := H, trace := trace sim @ [Update 0]\<rparr>"
  have "\<exists>ds. diagnose_all ?s1
             = Inr (?s1\<lparr>diagnostics := ds, printed_rows := printed_rows ?s1,
                        trace := trace ?s1 @ map Diagnose [0 ..< length (diagnostics ?s1)]\<rparr>) \<and>
           list_all2 (\<lambda>d d'. diag_ready (Clock_advance (clock ?s1)) m d')
             (diagnostics ?s1) ds"
    using assms sh by (intro diagnose_all_ready) (simp_all add: loop_ready_def)
  then obtain ds where d: "diagnose_all ?s1
             = Inr (?s1\<lparr>diagnostics := ds, printed_rows := printed_rows ?s1,
                        trace := trace ?s1 @ map Diagnose [0 ..< length (diagnostics ?s1)]\<rparr>)"
    and all2: "list_all2 (\<lambda>d d'. diag_ready (Clock_advance (clock sim)) m d')
             (diagnostics sim) ds"
    by auto
  from assms have ms: "physics_modules sim = [m]"
    by (simp add: loop_ready_def)
  show ?thesis
    using u d all2 sh ms
    by (simp add: loop_body_def advance_clock_def)
qed

lemma run_loop_ready:
  "loop_ready m sim \<Longrightarrow>
     \<exists>sim'. run_loop sim = Inr sim' \<and>
       shape (heap sim' (position m)) = [3] \<and> shape (heap sim' (momentum m)) = [3] \<and>
       current_step (clock sim') \<le> num_steps (clock sim') \<and>
       list_all (diag_ready (clock sim') m) (diagnostics sim')"
proof (induction sim rule: run_loop.induct)
  case (1 sim)
  show ?case
  proof (cases "Clock_is_finished (clock sim)")
    case True
    have run: "run_loop sim = Inr sim"
      using True by (simp add: run_loop.simps [of sim])
    with "1.prems" show ?thesis
      by (intro exI [of _ sim]) (simp add: loop_ready_def)
  next
    case False
    then have lt: "current_step (clock sim) < num_steps (clock sim)"
      by (simp add: Clock_is_finished_def)
    from loop_body_ready [OF "1.prems"]
    obtain s1 where body: "loop_body sim = Inr s1"
      and clk: "clock s1 = Clock_advance (clock sim)"
      and st: "physics_modules s1 = [m]" "tool_objs s1 = tool_objs sim"
        "shape (heap s1 (position m)) = [3]" "shape (heap s1 (momentum m)) = [3]"
      and all2: "list_all2 (\<lambda>d d'. diag_ready (Clock_advance (clock sim)) m d')
             (diagnostics sim) (diagnostics s1)"
      by blast
    from all2 have rdy1: "list_all (diag_ready (clock s1) m) (diagnostics s1)"
      by (auto simp: clk list_all_iff list_all2_conv_all_nth in_set_conv_nth)
    have ready1: "loop_ready m s1"
      using "1.prems" st rdy1 lt by (simp add: loop_ready_def clk Clock_advance_fields)
    from "1.IH" [OF False body ready1]
    obtain sim' where rest: "run_loop s1 = Inr sim'"
      and fin: "shape (heap sim' (position m)) = [3]" "shape (heap sim' (momentum m)) = [3]"
        "current_step (clock sim') \<le> num_steps (clock sim')"
        "list_all (diag_ready (clock sim') m) (diagnostics sim')"
      by blast
    have run: "run_loop sim = Inr sim'"
      using False body rest by (simp add: run_loop.simps [of sim])
    show ?thesis
      using run fin by (intro exI [of _ sim']) simp
  qed
qed

lemma diagnostic_finalize_ready:
  assumes "diag_ready c m d" and "current_step c \<le> num_steps c"
    and "shape (H (position m)) = [3]" and "shape (H (momentum m)) = [3]"
  shows "\<exists>d'. diagnostic_finalize c H d out = Inr (d', out)"
proof (cases d)
  case (ClockDiag cd)
  with assms(1) obtain s where s: "clock_output_function cd = Some csv_diagnose"
      "clock_csv cd = Some s"
      "int (length (buffer s)) + (num_steps c - current_step c) + 1 \<le> fst (diagnostic_size s)"
    by (auto simp: sink_room_def split: option.splits)
  let ?s' = "s\<lparr>buffer := buffer s @ [[current_time c]]\<rparr>"
  have "ClockDiagnostic_diagnose c cd out = Inr (cd\<lparr>clock_csv := Some ?s'\<rparr>, out)"
    using s assms(2) by (simp add: ClockDiagnostic_diagnose_def CSV_append_def)
  then show ?thesis
    using s by (simp add: ClockDiag ClockDiagnostic_finalize_def)
next
  case (BlockDiag bd)
  with assms(1) obtain s a where s: "output_function bd = Some csv_diagnose"
      "diag_input_data bd ''output_type'' = Some (PStr ''csv'')"
      "data bd = Some a" "a = position m \<or> a = momentum m"
      "csv bd = Some s"
      "int (length (buffer s)) + (num_steps c - current_step c) + 1 \<le> fst (diagnostic_size s)"
    by (auto simp: sink_room_def split: option.splits)
  from s(4) assms(3,4) have "shape (H a) = [3]" by auto
  then obtain row where row: "H a = [row]"
    using shape_row3 by blast
  let ?s' = "s\<lparr>buffer := buffer s @ [row]\<rparr>"
  have "BlockDiagnostic_diagnose bd H out = Inr (bd\<lparr>csv := Some ?s'\<rparr>, out)"
    using s assms(2) row
    by (simp add: BlockDiagnostic_diagnose_def BlockDiagnostic_read_def CSV_append_def)
  then show ?thesis
    using s by (simp add: BlockDiag BlockDiagnostic_finalize_def py_item_def)
qed

lemma finalize_all_ready:
  assumes "list_all (diag_ready (clock sim) m) (diagnostics sim)"
    and "current_step (clock sim) \<le> num_steps (clock sim)"
    and "shape (heap sim (position m)) = [3]" and "shape (heap sim (momentum m)) = [3]"
  shows "\<exists>ds. finalize_all sim
             = Inr (sim\<lparr>diagnostics := ds, printed_rows := printed_rows sim,
                        trace := trace sim @ map Finalize [0 ..< length (diagnostics sim)]\<rparr>)"
proof -
  have "\<exists>ds. map_each Finalize (diagnostic_finalize (clock sim) (heap sim)) 0 (diagnostics sim)
               (printed_rows sim) (trace sim)
             = Inr (ds, printed_rows sim,
                    trace sim @ map Finalize [0 ..< 0 + length (diagnostics sim)]) \<and>
           list_all2 (\<lambda>d d'. True) (diagnostics sim) ds"
  proof (rule map_each_all2 [where P = "diag_ready (clock sim) m"])
    fix x
    assume "x \<in> set (diagnostics sim)" and r: "diag_ready (clock sim) m x"
    show "\<exists>x'. diagnostic_finalize (clock sim) (heap sim) x (printed_rows sim)
                     = Inr (x', printed_rows sim) \<and> True"
      using diagnostic_finalize_ready [OF r assms(2) assms(3) assms(4)] by simp
  next
    show "list_all (diag_ready (clock sim) m) (diagnostics sim)"
      by (rule assms(1))
  qed
  then show ?thesis
    by (auto simp: finalize_all_def)
qed

lemma initialize_phase_trace:
  assumes "initialize_phase sim = Inr s"
  shows "trace s = trace sim
           @ setup_events (length (tools sim)) (length (physics_modules sim))
               (length (diagnostics sim))"
    and "clock s = clock sim"
    and "length (physics_modules s) = length (physics_modules sim)"
    and "length (diagnostics s) = length (diagnostics sim)"
    and "phase s = phase sim"
proof -
  from assms obtain s1 s2 s3 s4 where st: "initialize_tools sim = Inr s1"
      "initialize_modules s1 = Inr s2" "initialize_diagnostics s2 = Inr s3"
      "exchange_publish s3 = Inr s4" "exchange_subscribe s4 = Inr s"
    by (auto simp: initialize_phase_def split: sum.splits)
  from st(1) obtain objs tr1 where a1: "s1 = sim\<lparr>tool_objs := objs, trace := tr1\<rparr>"
    and t1: "tr1 = trace sim @ map InitializeTool [0 ..< 0 + length (tools sim)]"
    by (auto simp: initialize_tools_def split: sum.splits prod.splits dest: for_each_trace)
  from st(2) obtain H tr2 where a2: "s2 = s1\<lparr>heap := H, trace := tr2\<rparr>"
    and t2: "tr2 = trace s1 @ map InitializeModule [0 ..< 0 + length (physics_modules s1)]"
    by (auto simp: initialize_modules_def split: sum.splits prod.splits dest: for_each_trace)
  from st(3) obtain ds3 tr3 where a3: "s3 = s2\<lparr>diagnostics := ds3, trace := tr3\<rparr>"
    and t3: "tr3 = trace s2 @ map InitializeDiagnostic [0 ..< 0 + length (diagnostics s2)]"
      "length ds3 = length (diagnostics s2)"
    by (auto simp: initialize_diagnostics_def split: sum.splits prod.splits
             dest: map_each_trace)
  from st(4) obtain dir tr4 where a4: "s4 = s3\<lparr>resources := dir, trace := tr4\<rparr>"
    and t4: "tr4 = trace s3 @ map ExchangePublish [0 ..< 0 + length (physics_modules s3)]"
    by (auto simp: exchange_publish_def split: sum.splits prod.splits dest: for_each_trace)
  from st(5) obtain ds5 tr5 where a5: "s = s4\<lparr>diagnostics := ds5, trace := tr5\<rparr>"
    and t5: "tr5 = trace s4 @ map ExchangeSubscribe [0 ..< 0 + length (diagnostics s4)]"
      "length ds5 = length (diagnostics s4)"
    by (auto simp: exchange_subscribe_def split: sum.splits prod.splits
             dest: map_each_trace)
  show "trace s = trace sim
           @ setup_events (length (tools sim)) (length (physics_modules sim))
               (length (diagnostics sim))"
    and "clock s = clock sim"
    and "length (physics_modules s) = length (physics_modules sim)"
    and "length (diagnostics s) = length (diagnostics sim)"
    and "phase s = phase sim"
    by (simp_all add: a1 a2 a3 a4 a5 t1 t2 t3 t4 t5 setup_events_def)
qed

lemma finalize_all_trace:
  assumes "finalize_all sim = Inr s"
  shows "trace s = trace sim @ map Finalize [0 ..< length (diagnostics sim)]"
    and "clock s = clock sim"
  using assms
  by (auto simp: finalize_all_def split: sum.splits prod.splits dest: map_each_trace)

text \<open>
  Claim C4. A run that completes has made its calls in this order: the setup calls; then,
  once for every step the clock had left, every PhysicsModule's per-step action in
  construction order, then every Diagnostic's per-step action in construction order,
  then \<^verbatim>\<open>Clock.advance()\<close>; and, the clock being finished, \<^verbatim>\<open>finalize()\<close> on every
  Diagnostic exactly once, in construction order. The loop stops exactly when the clock
  reports finished.
\<close>

theorem Simulation_run_order:
  assumes "Simulation_run sim = Inr sim'"
  shows "trace sim' =
           trace sim
           @ setup_events (length (tools sim)) (length (physics_modules sim))
               (length (diagnostics sim))
           @ concat (replicate (nat (num_steps (clock sim) - current_step (clock sim)))
               (map Update [0 ..< length (physics_modules sim)]
                  @ map Diagnose [0 ..< length (diagnostics sim)] @ [Advance]))
           @ map Finalize [0 ..< length (diagnostics sim)] \<and>
         Clock_is_finished (clock sim') \<and> phase sim' = Finalized"
proof -
  from assms obtain s1 s2 s3 where b: "phase sim = Building"
    and i: "initialize_phase (sim\<lparr>phase := Initializing\<rparr>) = Inr s1"
    and r: "run_loop (s1\<lparr>phase := Running\<rparr>) = Inr s2"
    and f: "finalize_all s2 = Inr s3"
    and e: "sim' = s3\<lparr>phase := Finalized\<rparr>"
    by (auto simp: Simulation_run_def split: if_splits sum.splits)
  note init = initialize_phase_trace [OF i]
  note loop = run_loop_trace [OF r]
  note fin = finalize_all_trace [OF f]
  show ?thesis
    using init loop fin
    by (simp add: e iteration_events_def)
qed

section \<open>The run of the notebook's configuration\<close>

lemma tutorial_initialize:
  "\<exists>s1.
     initialize_phase (tutorial_sim\<lparr>phase := Initializing\<rparr>) = Inr s1 \<and>
     clock s1 = clock tutorial_sim \<and>
     physics_modules s1 = physics_modules tutorial_sim \<and>
     dt (tool_objs s1 0) = Some (1 / 10) \<and>
     heap s1 0 = [[0, 1, 0]] \<and> heap s1 (Suc 0) = [[0, 0, 0]] \<and>
     (\<exists>a b c. diagnostics s1 = [ClockDiag a, BlockDiag b, BlockDiag c] \<and>
        clock_output_function a = Some csv_diagnose \<and>
        clock_csv a = Some (CSVOutputUtility_init (PStr ''time.csv'') (101, 1)) \<and>
        output_function b = Some csv_diagnose \<and>
        diag_input_data b ''output_type'' = Some (PStr ''csv'') \<and>
        data b = Some (Suc 0) \<and>
        csv b = Some (CSVOutputUtility_init (PStr ''block_p.csv'') (101, 3)) \<and>
        output_function c = Some csv_diagnose \<and>
        diag_input_data c ''output_type'' = Some (PStr ''csv'') \<and>
        data c = Some 0 \<and>
        csv c = Some (CSVOutputUtility_init (PStr ''block_x.csv'') (101, 3)))"
  by (simp add: initialize_phase_def initialize_tools_def initialize_modules_def
        initialize_diagnostics_def exchange_publish_def exchange_subscribe_def
        tutorial_sim_def Leapfrog_initialize_def Leapfrog_init_def
        BlockOnSpring_initialize_def py_item_def assign_1x3_def
        BlockOnSpring_exchange_resources_def publish_def
        ClockDiagnostic_initialize_def ClockDiagnostic_init_def
        BlockDiagnostic_initialize_def BlockDiagnostic_init_def py_get_def
        BlockDiagnostic_inspect_resource_def resource_key_def CSVOutputUtility_init_def)

lemma tutorial_run: "\<exists>sim'. Simulation_run tutorial_sim = Inr sim'"
proof -
  obtain m where m: "physics_modules tutorial_sim = [m]" "position m = 0" "momentum m = Suc 0"
      "mass m = PInt 1" "spring_constant m = PInt 1" "push m = 0"
    by (simp add: tutorial_sim_def)
  have clk0: "num_steps (clock tutorial_sim) = 100" "current_step (clock tutorial_sim) = 0"
    by (simp_all add: tutorial_sim_def)
  from tutorial_initialize obtain s1 a1 b1 c1 where
    init: "initialize_phase (tutorial_sim\<lparr>phase := Initializing\<rparr>) = Inr s1"
    and k1: "clock s1 = clock tutorial_sim"
    and ms1: "physics_modules s1 = physics_modules tutorial_sim"
    and t1: "dt (tool_objs s1 0) = Some (1 / 10)"
    and h1: "heap s1 0 = [[0, 1, 0]]" "heap s1 (Suc 0) = [[0, 0, 0]]"
    and d1: "diagnostics s1 = [ClockDiag a1, BlockDiag b1, BlockDiag c1]"
    and a1: "clock_output_function a1 = Some csv_diagnose"
      "clock_csv a1 = Some (CSVOutputUtility_init (PStr ''time.csv'') (101, 1))"
    and b1: "output_function b1 = Some csv_diagnose"
      "diag_input_data b1 ''output_type'' = Some (PStr ''csv'')"
      "data b1 = Some (Suc 0)"
      "csv b1 = Some (CSVOutputUtility_init (PStr ''block_p.csv'') (101, 3))"
    and c1: "output_function c1 = Some csv_diagnose"
      "diag_input_data c1 ''output_type'' = Some (PStr ''csv'')"
      "data c1 = Some 0"
      "csv c1 = Some (CSVOutputUtility_init (PStr ''block_x.csv'') (101, 3))"
    by blast
  have ready1: "loop_ready m (s1\<lparr>phase := Running\<rparr>)"
    unfolding loop_ready_def
    using m ms1 t1 h1 d1 a1 b1 c1 k1 clk0
    by (simp add: shape_def sink_room_def CSVOutputUtility_init_def)
  from run_loop_ready [OF ready1]
  obtain sF where loop1: "run_loop (s1\<lparr>phase := Running\<rparr>) = Inr sF"
    and shF: "shape (heap sF (position m)) = [3]" "shape (heap sF (momentum m)) = [3]"
    and leF: "current_step (clock sF) \<le> num_steps (clock sF)"
    and rdyF: "list_all (diag_ready (clock sF) m) (diagnostics sF)"
    by blast
  from finalize_all_ready [OF rdyF leF shF]
  obtain ds3 where fin: "finalize_all sF
             = Inr (sF\<lparr>diagnostics := ds3, printed_rows := printed_rows sF,
                        trace := trace sF @ map Finalize [0 ..< length (diagnostics sF)]\<rparr>)"
    by blast
  show ?thesis
    using init loop1 fin by (simp add: Simulation_run_def tutorial_sim_def)
qed

theorem Simulation_run_order_witness:
  "\<exists>sim'. Simulation_run tutorial_sim = Inr sim' \<and>
     trace sim' =
       setup_events 1 1 3
       @ concat (replicate 100 (map Update [0 ..< 1] @ map Diagnose [0 ..< 3] @ [Advance]))
       @ map Finalize [0 ..< 3] \<and>
     Clock_is_finished (clock sim') \<and> phase sim' = Finalized"
proof -
  from tutorial_run obtain sim' where run: "Simulation_run tutorial_sim = Inr sim'"
    by blast
  have facts: "trace tutorial_sim = []" "length (tools tutorial_sim) = 1"
      "length (physics_modules tutorial_sim) = 1" "length (diagnostics tutorial_sim) = 3"
      "nat (num_steps (clock tutorial_sim) - current_step (clock tutorial_sim)) = 100"
    by (simp_all add: tutorial_sim_def)
  from Simulation_run_order [OF run]
  have "trace sim' =
       setup_events 1 1 3
       @ concat (replicate 100 (map Update [0 ..< 1] @ map Diagnose [0 ..< 3] @ [Advance]))
       @ map Finalize [0 ..< 3] \<and>
     Clock_is_finished (clock sim') \<and> phase sim' = Finalized"
    unfolding facts by (simp only: append_Nil)
  with run show ?thesis by blast
qed

end
